theory Spec2Isabelle
  imports Main "HOL-Library.AList"
begin

section \<open>JavaScript values\<close>

text \<open>
  The values the controller module handles are parsed JSON bodies and the object literals it
  builds from them. An object is an association list in the object's own property order
  (the order \<open>Object.entries\<close> and the spread operator enumerate); a key occurs at most once
  in an object that JavaScript built. A property may hold \<open>undefined\<close>, which is not the
  same as the key being absent. Numbers are integers here: no operation of the module
  computes with a number.
\<close>

datatype json =
    JUndefined
  | JNull
  | JBool bool
  | JNum int
  | JStr string
  | JArr "json list"
  | JObj "(string \<times> json) list"

text \<open>What the module can throw or catch: a \<open>TypeError\<close> of the language, the error axios
  rejects with (carrying \<open>error.response?.status\<close>), and \<open>new APIError(message, cause)\<close>,
  recorded as its two constructor arguments.\<close>

datatype thrown =
    TypeError
  | AxiosError "nat option"
  | APIError string "thrown option"

fun truthy :: "json \<Rightarrow> bool" where
  "truthy JUndefined = False"
| "truthy JNull = False"
| "truthy (JBool b) = b"
| "truthy (JNum n) = (n \<noteq> 0)"
| "truthy (JStr s) = (s \<noteq> [])"
| "truthy (JArr xs) = True"
| "truthy (JObj kvs) = True"

definition nullish :: "json \<Rightarrow> bool" where
  "nullish v = (v = JUndefined \<or> v = JNull)"

text \<open>Decimal rendering of an array index and of a number in a template literal.\<close>

function nat_to_string :: "nat \<Rightarrow> string" where
  "nat_to_string n =
     (if n < 10 then [''0123456789'' ! n]
      else nat_to_string (n div 10) @ [''0123456789'' ! (n mod 10)])"
  by pat_completeness auto
termination
  by (relation "measure id") auto

declare nat_to_string.simps [simp del]

definition int_to_string :: "int \<Rightarrow> string" where
  "int_to_string i = (if i < 0 then ''-'' @ nat_to_string (nat (- i)) else nat_to_string (nat i))"

text \<open>The own enumerable string-keyed properties of a value, as \<open>{...v}\<close>, a rest pattern
  and \<open>Object.entries(v)\<close> enumerate them: an object's entries, an array's and a string's
  indices, nothing for the other primitives (and nothing for \<open>null\<close> and \<open>undefined\<close>
  under a spread; the callers that throw on those test \<open>nullish\<close> first).\<close>

fun own_props :: "json \<Rightarrow> (string \<times> json) list" where
  "own_props (JObj kvs) = kvs"
| "own_props (JArr xs) = zip (map nat_to_string [0..<length xs]) xs"
| "own_props (JStr s) = zip (map nat_to_string [0..<length s]) (map (\<lambda>c. JStr [c]) s)"
| "own_props v = []"

text \<open>Reading one of the properties the module reads by name (\<open>id\<close>, \<open>config\<close>,
  \<open>nodeId\<close>, \<open>address\<close>): the value in an object, \<open>undefined\<close> where the key is absent and
  on arrays and primitives, none of which has a property of these names.\<close>

fun get_prop :: "json \<Rightarrow> string \<Rightarrow> json" where
  "get_prop (JObj kvs) k = (case map_of kvs k of Some v \<Rightarrow> v | None \<Rightarrow> JUndefined)"
| "get_prop v k = JUndefined"

text \<open>\<open>{...target, ...src}\<close>: every property of \<open>src\<close> in turn is written into the
  object under construction, replacing in place the value of a key already there and
  appending a new key at the end. So the later spread wins. (JavaScript moves keys that
  are array indices to the front of the enumeration; the key set and the values are the
  same, and only they are used below.)\<close>

definition spread :: "(string \<times> json) list \<Rightarrow> json \<Rightarrow> (string \<times> json) list" where
  "spread target src = fold (\<lambda>(k, v). AList.update k v) (own_props src) target"

text \<open>The rest pattern \<open>const { id, config, ...rest } = v\<close>: the properties of \<open>v\<close> other
  than the two named ones, in their order.\<close>

definition rest_props :: "json \<Rightarrow> (string \<times> json) list" where
  "rest_props v = AList.delete ''config'' (AList.delete ''id'' (own_props v))"

text \<open>Template-literal conversion \<open>`${v}`\<close>; an array renders as its elements joined
  by commas, \<open>null\<close> and \<open>undefined\<close> elements as the empty string. A number renders
  in decimal, as JavaScript does for the integers it holds exactly below \<open>1e21\<close>.\<close>

fun join_comma :: "string list \<Rightarrow> string" where
  "join_comma [] = []"
| "join_comma [s] = s"
| "join_comma (s # t # ss) = s @ '','' @ join_comma (t # ss)"

fun template :: "json \<Rightarrow> string" where
  "template JUndefined = ''undefined''"
| "template JNull = ''null''"
| "template (JBool b) = (if b then ''true'' else ''false'')"
| "template (JNum n) = int_to_string n"
| "template (JStr s) = s"
| "template (JArr xs) = join_comma (map (\<lambda>x. if nullish x then [] else template x) xs)"
| "template (JObj kvs) = ''[object Object]''"

text \<open>\<open>[...v]\<close> for the one operand the module spreads into an array literal, which is
  always an array.\<close>

fun array_spread :: "json \<Rightarrow> json list" where
  "array_spread (JArr xs) = xs"
| "array_spread v = []"

text \<open>\<open>Array.prototype.map\<close> with a callback that may throw: the first throw aborts.\<close>

fun array_map :: "(json \<Rightarrow> thrown + json) \<Rightarrow> json list \<Rightarrow> thrown + json list" where
  "array_map f [] = Inr []"
| "array_map f (x # xs) =
     (case f x of
        Inl e \<Rightarrow> Inl e
      | Inr y \<Rightarrow> (case array_map f xs of Inl e \<Rightarrow> Inl e | Inr ys \<Rightarrow> Inr (y # ys)))"

section \<open>Flattening layer\<close>

text \<open>Destructuring \<open>null\<close> or \<open>undefined\<close> throws a \<open>TypeError\<close>.\<close>

definition flattenCentralMember :: "json \<Rightarrow> thrown + json" where
  "flattenCentralMember member =
     (if nullish member then Inl TypeError
      else
        let nodeId = get_prop member ''id'';
            config = get_prop member ''config'';
            otherProps = rest_props member;
            flattenedMember = spread (spread [(''nodeId'', nodeId)] config) (JObj otherProps)
        in Inr (JObj flattenedMember))"

definition flattenCentralMembers :: "json \<Rightarrow> thrown + json" where
  "flattenCentralMembers members =
     (if \<not> truthy members then Inr (JArr [])
      else case members of
             JArr ms \<Rightarrow> map_sum id JArr (array_map flattenCentralMember ms)
           | _ \<Rightarrow> Inl TypeError)"

definition flattenNetwork :: "json \<Rightarrow> thrown + json" where
  "flattenNetwork network =
     (if nullish network then Inl TypeError
      else
        let nwid = get_prop network ''id'';
            config = get_prop network ''config'';
            otherProps = rest_props network;
            flattenedNetwork = spread (spread [(''nwid'', nwid)] config) (JObj otherProps)
        in Inr (JObj flattenedNetwork))"

definition flattenNetworks :: "json \<Rightarrow> thrown + json" where
  "flattenNetworks networks =
     (case networks of
        JArr ns \<Rightarrow> map_sum id JArr (array_map flattenNetwork ns)
      | _ \<Rightarrow> Inl TypeError)"

section \<open>Environment and effects\<close>

text \<open>
  Everything the module reads from outside is a field of the environment: the two module
  constants computed at load time (\<open>LOCAL_ZT_ADDR\<close>, and \<open>ZT_SECRET\<close>, which stays
  \<open>undefined\<close> when neither the variable nor the file gave a token), the outcome of
  \<open>prisma.globalOptions.findFirst\<close>, the candidates \<open>IPv4gen(null).cidrOptions\<close>, and the
  backends. A backend answers a request knowing the requests issued before it, so it may
  answer the same request differently at different times. \<open>first_rejected\<close> decides which
  of the rejected promises of a \<open>Promise.all\<close> settles first (given how many rejected).
\<close>

datatype http_method = GET | POST | DELETE

record request =
  req_method :: http_method
  req_addr :: string
  req_headers :: "(string \<times> json) list"
  req_payload :: "json option"

datatype reply = Status nat json | NoResponse

datatype globalOptions =
  GlobalOptions (row_ztCentralApiKey: "string option") (row_ztCentralApiUrl: "string option")

record env =
  LOCAL_ZT_ADDR :: string
  ZT_SECRET :: "string option"
  findFirst :: "thrown + globalOptions option"
  server :: "request list \<Rightarrow> request \<Rightarrow> reply"
  first_rejected :: "nat \<Rightarrow> nat"
  cidrOptions :: json

text \<open>The effects of a call are the requests it issued and what it wrote with
  \<open>console.error\<close>, both in order.\<close>

record world =
  trace :: "request list"
  console :: "thrown list"

type_synonym 'a io = "world \<Rightarrow> (thrown + 'a) \<times> world"

definition ret :: "'a \<Rightarrow> 'a io" where
  "ret x w = (Inr x, w)"

definition throw :: "thrown \<Rightarrow> 'a io" where
  "throw e w = (Inl e, w)"

definition lift :: "thrown + 'a \<Rightarrow> 'a io" where
  "lift r w = (r, w)"

text \<open>\<open>const x = await m; f(x)\<close>: a rejection of \<open>m\<close> skips the rest.\<close>

definition await :: "'a io \<Rightarrow> ('a \<Rightarrow> 'b io) \<Rightarrow> 'b io" where
  "await m f w = (case m w of (Inl e, w') \<Rightarrow> (Inl e, w') | (Inr x, w') \<Rightarrow> f x w')"

text \<open>\<open>try { m } catch (error) { h(error) }\<close>.\<close>

definition try_catch :: "'a io \<Rightarrow> (thrown \<Rightarrow> 'a io) \<Rightarrow> 'a io" where
  "try_catch m h w = (case m w of (Inl e, w') \<Rightarrow> h e w' | (Inr x, w') \<Rightarrow> (Inr x, w'))"


text \<open>axios with its default \<open>validateStatus\<close>: a response with a status from 200 to 299
  resolves, any other response rejects with an error carrying the response, and a request
  that got no response rejects with an error carrying none.\<close>

definition replied_ok :: "reply \<Rightarrow> bool" where
  "replied_ok r = (case r of Status s d \<Rightarrow> 200 \<le> s \<and> s < 300 | NoResponse \<Rightarrow> False)"

definition axios_request :: "env \<Rightarrow> request \<Rightarrow> (nat \<times> json) io" where
  "axios_request env rq w =
     (let w' = w\<lparr>trace := trace w @ [rq]\<rparr>
      in case server env (trace w) rq of
           Status s d \<Rightarrow>
             if 200 \<le> s \<and> s < 300 then (Inr (s, d), w') else (Inl (AxiosError (Some s)), w')
         | NoResponse \<Rightarrow> (Inl (AxiosError None), w'))"

fun isAxiosError :: "thrown \<Rightarrow> bool" where
  "isAxiosError (AxiosError st) = True"
| "isAxiosError e = False"

fun response_status :: "thrown \<Rightarrow> nat option" where
  "response_status (AxiosError st) = st"
| "response_status e = None"

section \<open>Credential resolver\<close>

definition CENTRAL_ZT_ADDR :: string where
  "CENTRAL_ZT_ADDR = ''https://api.zerotier.com/api/v1''"

record GetOptionsResponse =
  ztCentralApiUrl :: "string option"
  headers :: "(string \<times> json) list"

definition template_opt :: "string option \<Rightarrow> string" where
  "template_opt s = (case s of None \<Rightarrow> ''null'' | Some t \<Rightarrow> t)"

text \<open>For Central, the row is destructured (a missing row throws) and an absent or empty
  URL falls back to the default.\<close>

definition getOptions :: "env \<Rightarrow> bool \<Rightarrow> thrown + GetOptionsResponse" where
  "getOptions env isCentral =
     (if isCentral then
        (case findFirst env of
           Inl e \<Rightarrow> Inl e
         | Inr None \<Rightarrow> Inl TypeError
         | Inr (Some row) \<Rightarrow>
             Inr \<lparr> ztCentralApiUrl =
                     Some (case row_ztCentralApiUrl row of
                             None \<Rightarrow> CENTRAL_ZT_ADDR
                           | Some u \<Rightarrow> if u = [] then CENTRAL_ZT_ADDR else u),
                   headers =
                     [(''Authorization'', JStr (''token '' @ template_opt (row_ztCentralApiKey row))),
                      (''Content-Type'', JStr ''application/json'')] \<rparr>)
      else
        Inr \<lparr> ztCentralApiUrl = None,
              headers =
                [(''X-ZT1-Auth'', (case ZT_SECRET env of None \<Rightarrow> JUndefined | Some t \<Rightarrow> JStr t)),
                 (''Content-Type'', JStr ''application/json'')] \<rparr>)"

section \<open>Transport wrapper\<close>

definition GET_request :: "string \<Rightarrow> (string \<times> json) list \<Rightarrow> request" where
  "GET_request addr hdrs =
     \<lparr>req_method = GET, req_addr = addr, req_headers = hdrs, req_payload = None\<rparr>"

definition POST_request :: "string \<Rightarrow> (string \<times> json) list \<Rightarrow> json \<Rightarrow> request" where
  "POST_request addr hdrs payload =
     \<lparr>req_method = POST, req_addr = addr, req_headers = hdrs, req_payload = Some payload\<rparr>"

definition DELETE_request :: "string \<Rightarrow> (string \<times> json) list \<Rightarrow> request" where
  "DELETE_request addr hdrs =
     \<lparr>req_method = DELETE, req_addr = addr, req_headers = hdrs, req_payload = None\<rparr>"

definition getData :: "env \<Rightarrow> string \<Rightarrow> (string \<times> json) list \<Rightarrow> json io" where
  "getData env addr hdrs =
     try_catch
       (await (axios_request env (GET_request addr hdrs)) (\<lambda>(status, data). ret data))
       (\<lambda>error.
          if isAxiosError error \<and> response_status error = Some 401
            then throw (APIError ''Invalid API Key'' (Some error))
          else if isAxiosError error \<and> response_status error = Some 404
            then throw (APIError ''Endpoint Not Found'' (Some error))
          else throw (APIError (''An error occurred fetching data from '' @ addr) (Some error)))"

definition postData :: "env \<Rightarrow> string \<Rightarrow> (string \<times> json) list \<Rightarrow> json \<Rightarrow> json io" where
  "postData env addr hdrs payload =
     try_catch
       (await (axios_request env (POST_request addr hdrs payload)) (\<lambda>(status, data). ret data))
       (\<lambda>error. throw (APIError (''An error occurred while posting data to '' @ addr) (Some error)))"

text \<open>\<open>axios.delete(addr, { headers })\<close>, which the two delete operations call directly.\<close>

definition axios_delete :: "env \<Rightarrow> string \<Rightarrow> (string \<times> json) list \<Rightarrow> (nat \<times> json) io" where
  "axios_delete env addr hdrs =
     axios_request env (DELETE_request addr hdrs)"

definition CENTRAL_prefix :: "bool \<Rightarrow> string" where
  "CENTRAL_prefix isCentral = (if isCentral then ''[CENTRAL] '' else [])"

section \<open>Controller operations\<close>




definition get_controller_status :: "env \<Rightarrow> bool \<Rightarrow> json io" where
  "get_controller_status env isCentral =
     await (lift (getOptions env isCentral)) (\<lambda>opts.
       let addr = (if isCentral then template_opt (ztCentralApiUrl opts) @ ''/status''
                   else LOCAL_ZT_ADDR env @ ''/status'')
       in try_catch (getData env addr (headers opts))
            (\<lambda>error. throw (APIError (CENTRAL_prefix isCentral
                                       @ ''An error occurred while getting get_controller_status'')
                                     (Some error))))"

text \<open>\<open>{ name, private: true, ...ipAssignment }\<close>, lines 253 to 257.\<close>

definition create_payload :: "string \<Rightarrow> json \<Rightarrow> (string \<times> json) list" where
  "create_payload name ipAssignment =
     spread [(''name'', JStr name), (''private'', JBool True)] ipAssignment"

definition network_create :: "env \<Rightarrow> string \<Rightarrow> json \<Rightarrow> bool \<Rightarrow> json io" where
  "network_create env name ipAssignment isCentral =
     await (lift (getOptions env isCentral)) (\<lambda>opts.
       let payload = create_payload name ipAssignment
       in try_catch
            (if isCentral then
               await (postData env (template_opt (ztCentralApiUrl opts) @ ''/network'') (headers opts)
                        (JObj [(''config'', JObj (spread [] (JObj payload))),
                               (''description'', JStr ''created with ztnet'')]))
                     (\<lambda>data. lift (flattenNetwork data))
             else
               await (get_controller_status env isCentral) (\<lambda>controllerStatus.
                 if nullish controllerStatus then throw TypeError
                 else postData env
                        (LOCAL_ZT_ADDR env @ ''/controller/network/''
                           @ template (get_prop controllerStatus ''address'') @ ''______'')
                        (headers opts) (JObj payload)))
            (\<lambda>error. throw (APIError (CENTRAL_prefix isCentral
                                       @ ''An error occurred while getting network_create'')
                                     (Some error))))"

definition network_delete :: "env \<Rightarrow> string \<Rightarrow> bool \<Rightarrow> json io" where
  "network_delete env nwid isCentral =
     await (lift (getOptions env isCentral)) (\<lambda>opts.
       let addr = (if isCentral then template_opt (ztCentralApiUrl opts) @ ''/network/'' @ nwid
                   else LOCAL_ZT_ADDR env @ ''/controller/network/'' @ nwid)
       in try_catch
            (await (axios_delete env addr (headers opts))
                   (\<lambda>(status, data). ret (JObj [(''status'', JNum (int status)),
                                                 (''data'', JUndefined)])))
            (\<lambda>error. throw (APIError (CENTRAL_prefix isCentral
                                       @ ''An error occurred while getting network_delete'')
                                     (Some error))))"

definition network_members :: "env \<Rightarrow> string \<Rightarrow> bool \<Rightarrow> json io" where
  "network_members env nwid isCentral =
     await (lift (getOptions env isCentral)) (\<lambda>opts.
       try_catch
         (let addr = (if isCentral
                        then template_opt (ztCentralApiUrl opts) @ ''/network/'' @ nwid @ ''/member''
                      else LOCAL_ZT_ADDR env @ ''/controller/network/'' @ nwid @ ''/member'')
          in getData env addr (headers opts))
         (\<lambda>error. throw (APIError (CENTRAL_prefix isCentral
                                    @ ''An error occurred while getting network_members'')
                                  (Some error))))"

section \<open>Detail aggregator\<close>

text \<open>The \<open>for ... of Object.entries(members)\<close> loop of \<open>local_network_detail\<close>, lines 347
  to 354, over the keys still to visit, with the accumulator \<open>membersArr\<close>.\<close>

fun fetch_member_details ::
  "env \<Rightarrow> string \<Rightarrow> (string \<times> json) list \<Rightarrow> string list \<Rightarrow> json list \<Rightarrow> json list io" where
  "fetch_member_details env nwid hdrs [] membersArr = ret membersArr"
| "fetch_member_details env nwid hdrs (memberId # ids) membersArr =
     await (getData env (LOCAL_ZT_ADDR env @ ''/controller/network/'' @ nwid @ ''/member/''
                           @ memberId) hdrs)
           (\<lambda>memberDetails. fetch_member_details env nwid hdrs ids (membersArr @ [memberDetails]))"

text \<open>\<open>Object.entries\<close> throws on \<open>null\<close> and \<open>undefined\<close>. The call to
  \<open>network_members\<close> passes no backend flag, so it always asks the local controller.\<close>

definition local_network_detail :: "env \<Rightarrow> string \<Rightarrow> bool \<Rightarrow> json io" where
  "local_network_detail env nwid isCentral =
     await (lift (getOptions env isCentral)) (\<lambda>opts.
       try_catch
         (await (network_members env nwid False) (\<lambda>members.
          await (getData env (LOCAL_ZT_ADDR env @ ''/controller/network/'' @ nwid) (headers opts))
            (\<lambda>network.
          await (if nullish members then throw TypeError
                 else fetch_member_details env nwid (headers opts)
                        (map fst (own_props members)) [])
            (\<lambda>membersArr.
          ret (JObj [(''network'', JObj (spread [] network)),
                     (''members'', JArr membersArr)])))))
         (\<lambda>error. throw (APIError
                    ''An error occurred while getting data from network_details function''
                    (Some error))))"

text \<open>\<open>members.map(async (member) => ...)\<close> calls the callback on every member in order, and
  each call issues its request before the next one starts; the outcomes are collected.
  \<open>Promise.all\<close> then resolves with all the values in order when none was rejected, and
  otherwise rejects with the rejection that settled first.\<close>

fun fan_out :: "(json \<Rightarrow> json io) \<Rightarrow> json list \<Rightarrow> world \<Rightarrow> (thrown + json) list \<times> world" where
  "fan_out f [] w = ([], w)"
| "fan_out f (x # xs) w =
     (case f x w of (r, w1) \<Rightarrow> (case fan_out f xs w1 of (rs, w2) \<Rightarrow> (r # rs, w2)))"

fun rejections :: "(thrown + 'a) list \<Rightarrow> thrown list" where
  "rejections [] = []"
| "rejections (Inl e # rs) = e # rejections rs"
| "rejections (Inr x # rs) = rejections rs"

fun fulfilled :: "(thrown + 'a) list \<Rightarrow> 'a list" where
  "fulfilled [] = []"
| "fulfilled (Inl e # rs) = fulfilled rs"
| "fulfilled (Inr x # rs) = x # fulfilled rs"

definition Promise_all :: "env \<Rightarrow> (json \<Rightarrow> json io) \<Rightarrow> json list \<Rightarrow> json list io" where
  "Promise_all env f xs w =
     (case fan_out f xs w of
        (rs, w') \<Rightarrow>
          (let errs = rejections rs
           in if errs = [] then (Inr (fulfilled rs), w')
              else (Inl (errs ! (first_rejected env (length errs) mod length errs)), w')))"

text \<open>The network object of the result, lines 397 to 405:
  \<open>{ cidr: cidrOptions, nwid: networkId, ...restData, ...networkConfig }\<close>.\<close>

definition central_network_record :: "json \<Rightarrow> json \<Rightarrow> json" where
  "central_network_record cidr network =
     (let networkId = get_prop network ''id'';
          networkConfig = get_prop network ''config'';
          restData = rest_props network
      in JObj (spread (spread [(''cidr'', cidr), (''nwid'', networkId)] (JObj restData))
                      networkConfig))"

definition member_detail_addr :: "string \<Rightarrow> json \<Rightarrow> string" where
  "member_detail_addr addr member =
     addr @ ''/member/'' @ template (if nullish member then JUndefined else get_prop member ''nodeId'')"

text \<open>\<open>members?.map\<close> is \<open>undefined\<close> for \<open>null\<close> and \<open>undefined\<close>, which \<open>Promise.all\<close>
  rejects, and calling the missing \<open>map\<close> of any other value that is not an array throws.\<close>

definition central_network_detail :: "env \<Rightarrow> string \<Rightarrow> bool \<Rightarrow> json io" where
  "central_network_detail env nwid isCentral =
     await (lift (getOptions env isCentral)) (\<lambda>opts.
       try_catch
         (let addr = (if isCentral then template_opt (ztCentralApiUrl opts) @ ''/network/'' @ nwid
                      else LOCAL_ZT_ADDR env @ ''/controller/network/'' @ nwid)
          in await (network_members env nwid isCentral) (\<lambda>members.
             await (getData env addr (headers opts)) (\<lambda>network.
             await (case members of
                      JArr ms \<Rightarrow>
                        Promise_all env
                          (\<lambda>member. getData env (member_detail_addr addr member) (headers opts)) ms
                    | _ \<Rightarrow> throw TypeError)
               (\<lambda>membersArr.
             if nullish network then throw TypeError
             else await (lift (flattenCentralMembers (JArr membersArr))) (\<lambda>flat.
                    ret (JObj [(''network'', central_network_record (cidrOptions env) network),
                               (''members'', JArr (array_spread flat))]))))))
         (\<lambda>error. throw (APIError ((if isCentral then ''[ZT CENTRAL]'' else [])
                                    @ '' An error occurred while getting data from network_details function'')
                                  (Some error))))"

section \<open>Updates, deletes, single reads and peers\<close>








section \<open>Vocabulary of the properties\<close>

text \<open>Every request of a sequence, issued one after the other on top of the history \<open>h\<close>,
  was answered with a success status; the body the backend sent, and the bodies sent in
  answer to a sequence of requests.\<close>

fun replies_ok :: "env \<Rightarrow> request list \<Rightarrow> request list \<Rightarrow> bool" where
  "replies_ok env h [] = True"
| "replies_ok env h (rq # rqs) = (replied_ok (server env h rq) \<and> replies_ok env (h @ [rq]) rqs)"

fun reply_body :: "reply \<Rightarrow> json" where
  "reply_body (Status s d) = d"
| "reply_body NoResponse = JUndefined"

fun reply_bodies :: "env \<Rightarrow> request list \<Rightarrow> request list \<Rightarrow> json list" where
  "reply_bodies env h [] = []"
| "reply_bodies env h (rq # rqs) = reply_body (server env h rq) # reply_bodies env (h @ [rq]) rqs"

text \<open>What was thrown is an \<open>APIError\<close>; a call threw an error of a given kind. A call fails
  loudly from a world when every request it issued was answered with success, or else it
  threw an \<open>APIError\<close>: no failed request is swallowed. \<open>loud\<close> is the same from every
  world, for a chosen kind of error.\<close>

fun wrapped :: "thrown \<Rightarrow> bool" where
  "wrapped (APIError m c) = True"
| "wrapped e = False"

definition threw :: "(thrown \<Rightarrow> bool) \<Rightarrow> thrown + 'a \<Rightarrow> bool" where
  "threw bad r = (case r of Inl e \<Rightarrow> bad e | Inr x \<Rightarrow> False)"



text \<open>Names for the addresses, messages and bodies that the operations build inline, for
  stating their properties.\<close>

definition local_headers :: "env \<Rightarrow> (string \<times> json) list" where
  "local_headers env =
     [(''X-ZT1-Auth'', (case ZT_SECRET env of None \<Rightarrow> JUndefined | Some t \<Rightarrow> JStr t)),
      (''Content-Type'', JStr ''application/json'')]"

definition local_members_request :: "env \<Rightarrow> string \<Rightarrow> request" where
  "local_members_request env nwid =
     GET_request (LOCAL_ZT_ADDR env @ ''/controller/network/'' @ nwid @ ''/member'') (local_headers env)"

definition members_addr :: "env \<Rightarrow> GetOptionsResponse \<Rightarrow> string \<Rightarrow> bool \<Rightarrow> string" where
  "members_addr env opts nwid isCentral =
     (if isCentral then template_opt (ztCentralApiUrl opts) @ ''/network/'' @ nwid @ ''/member''
      else LOCAL_ZT_ADDR env @ ''/controller/network/'' @ nwid @ ''/member'')"

definition network_addr :: "env \<Rightarrow> GetOptionsResponse \<Rightarrow> string \<Rightarrow> bool \<Rightarrow> string" where
  "network_addr env opts nwid isCentral =
     (if isCentral then template_opt (ztCentralApiUrl opts) @ ''/network/'' @ nwid
      else LOCAL_ZT_ADDR env @ ''/controller/network/'' @ nwid)"

definition detail_addr :: "env \<Rightarrow> string \<Rightarrow> string \<Rightarrow> string" where
  "detail_addr env nwid memberId =
     LOCAL_ZT_ADDR env @ ''/controller/network/'' @ nwid @ ''/member/'' @ memberId"

definition detail_request :: "env \<Rightarrow> string \<Rightarrow> (string \<times> json) list \<Rightarrow> string \<Rightarrow> request" where
  "detail_request env nwid hs memberId = GET_request (detail_addr env nwid memberId) hs"

definition local_detail_message :: string where
  "local_detail_message = ''An error occurred while getting data from network_details function''"

definition central_detail_message :: "bool \<Rightarrow> string" where
  "central_detail_message isCentral =
     (if isCentral then ''[ZT CENTRAL]'' else [])
       @ '' An error occurred while getting data from network_details function''"


definition status_addr :: "env \<Rightarrow> string" where
  "status_addr env = LOCAL_ZT_ADDR env @ ''/status''"

definition create_addr :: "env \<Rightarrow> json \<Rightarrow> string" where
  "create_addr env controllerStatus =
     LOCAL_ZT_ADDR env @ ''/controller/network/''
       @ template (get_prop controllerStatus ''address'') @ ''______''"

definition create_message :: "bool \<Rightarrow> string" where
  "create_message isCentral = CENTRAL_prefix isCentral @ ''An error occurred while getting network_create''"

definition create_body :: "string \<Rightarrow> json \<Rightarrow> json" where
  "create_body name ipAssignment =
     JObj [(''config'', JObj (create_payload name ipAssignment)),
           (''description'', JStr ''created with ztnet'')]"

definition lab_pool :: json where
  "lab_pool = JObj [(''ipPool'', JArr [JStr ''10.0.0.0/24''])]"

definition lab_body :: json where
  "lab_body = JObj [(''config'', JObj [(''name'', JStr ''lab''), (''private'', JBool True),
                                       (''ipPool'', JArr [JStr ''10.0.0.0/24''])]),
                    (''description'', JStr ''created with ztnet'')]"

text \<open>Sample environments: a local controller with three members whose third detail fetch
  fails; a Central service with two members whose second detail fetch fails; a Central
  service whose network record carries a \<open>cidr\<close> of its own in \<open>config\<close>; a controller
  that does not answer; a backend that answers every request with 401; a Central service
  that creates the network under another name; and one that echoes the \<open>config\<close> it was
  sent.\<close>

definition start :: world where
  "start = \<lparr>trace = [], console = []\<rparr>"

definition local_demo :: env where
  "local_demo =
     \<lparr>LOCAL_ZT_ADDR = ''http://127.0.0.1:9993'',
      ZT_SECRET = Some ''s3cret'',
      findFirst = Inr None,
      server = (\<lambda>h rq.
         if length h = 0
           then Status 200 (JObj [(''m1'', JNum 1), (''m2'', JNum 1), (''m3'', JNum 1)])
         else if length h = 4 then Status 500 JNull
         else Status 200 (JObj [(''id'', JStr (req_addr rq))])),
      first_rejected = (\<lambda>n. 0),
      cidrOptions = JArr []\<rparr>"


definition cidr_demo :: env where
  "cidr_demo =
     \<lparr>LOCAL_ZT_ADDR = ''http://127.0.0.1:9993'',
      ZT_SECRET = None,
      findFirst = Inr (Some (GlobalOptions (Some ''k3y'') None)),
      server = (\<lambda>h rq.
         if length h = 0 then Status 200 (JArr [JObj [(''nodeId'', JStr ''m1'')]])
         else if length h = 1
           then Status 200 (JObj [(''id'', JStr ''n1''),
                                  (''config'', JObj [(''name'', JStr ''lab''), (''cidr'', JStr ''own'')])])
         else Status 200 (JObj [(''id'', JStr ''n1-m1''), (''config'', JObj [(''authorized'', JBool True)])])),
      first_rejected = (\<lambda>n. 0),
      cidrOptions = JArr [JStr ''10.121.15.0/24'']\<rparr>"


definition unauthorized_demo :: env where
  "unauthorized_demo =
     \<lparr>LOCAL_ZT_ADDR = ''http://127.0.0.1:9993'',
      ZT_SECRET = None,
      findFirst = Inr None,
      server = (\<lambda>h rq. Status 401 JNull),
      first_rejected = (\<lambda>n. 0),
      cidrOptions = JArr []\<rparr>"

definition rename_demo :: env where
  "rename_demo =
     \<lparr>LOCAL_ZT_ADDR = ''http://127.0.0.1:9993'',
      ZT_SECRET = None,
      findFirst = Inr (Some (GlobalOptions (Some ''k3y'') None)),
      server = (\<lambda>h rq. Status 200 (JObj [(''id'', JStr ''8056c2e21c000001''),
                                          (''config'', JObj [(''name'', JStr ''renamed'')])])),
      first_rejected = (\<lambda>n. 0),
      cidrOptions = JArr []\<rparr>"

definition echo_demo :: env where
  "echo_demo =
     \<lparr>LOCAL_ZT_ADDR = ''http://127.0.0.1:9993'',
      ZT_SECRET = None,
      findFirst = Inr (Some (GlobalOptions (Some ''k3y'') None)),
      server = (\<lambda>h rq. Status 200
                  (JObj [(''id'', JStr ''8056c2e21c000001''),
                         (''config'', get_prop (case req_payload rq of None \<Rightarrow> JNull | Some p \<Rightarrow> p)
                                               ''config'')])),
      first_rejected = (\<lambda>n. 0),
      cidrOptions = JArr []\<rparr>"

section \<open>Properties of the flattening layer\<close>

lemma spread_merge: "spread t s = AList.merge t (rev (own_props s))"
  by (simp add: spread_def AList.merge_def foldr_conv_fold)

lemma keys_spread: "fst ` set (spread t s) = fst ` set t \<union> fst ` set (own_props s)"
  by (simp add: spread_merge dom_merge)

lemma map_of_rev_distinct: "distinct (map fst xs) \<Longrightarrow> map_of (rev xs) = map_of xs"
proof (induction xs)
  case Nil
  then show ?case by simp
next
  case (Cons x xs)
  then have "map_of xs (fst x) = None"
    by (simp add: map_of_eq_None_iff)
  with Cons show ?case
    by (auto simp: map_add_def fun_eq_iff split: option.splits)
qed

lemma map_of_spread_absent:
  "k \<notin> fst ` set (own_props s) \<Longrightarrow> map_of (spread t s) k = map_of t k"
proof -
  assume "k \<notin> fst ` set (own_props s)"
  then have "map_of (rev (own_props s)) k = None"
    by (simp add: map_of_eq_None_iff)
  then show ?thesis by (simp add: spread_merge merge_conv' map_add_def)
qed

lemma map_of_spread:
  "distinct (map fst (own_props s)) \<Longrightarrow> map_of (spread t s) = map_of t ++ map_of (own_props s)"
  by (simp add: spread_merge merge_conv' map_of_rev_distinct)

lemma keys_rest_props: "fst ` set (rest_props v) = fst ` set (own_props v) - {''id'', ''config''}"
proof -
  have "map fst (rest_props v) = removeAll ''config'' (removeAll ''id'' (map fst (own_props v)))"
    by (simp add: rest_props_def delete_keys)
  then have "set (map fst (rest_props v)) = set (map fst (own_props v)) - {''id'', ''config''}"
    by auto
  then show ?thesis by simp
qed

lemma map_of_rest_props:
  "map_of (rest_props v) k = (if k = ''id'' \<or> k = ''config'' then None else map_of (own_props v) k)"
  by (simp add: rest_props_def delete_conv')



lemma distinct_rest_props: "distinct (map fst (own_props v)) \<Longrightarrow> distinct (map fst (rest_props v))"
  by (simp add: rest_props_def distinct_delete)

text \<open>
  C1 (as the code has it). For a wire-shaped record \<open>{id, config, ...rest}\<close>, both
  single-record flatteners return an object whose key set is exactly the identifier
  (\<open>nodeId\<close> for a member, \<open>nwid\<close> for a network) together with the keys of \<open>config\<close> and
  the keys of \<open>rest\<close>. The identifier field holds the input's \<open>id\<close> when neither \<open>config\<close>
  nor the record has a key of the identifier's name, and the result has an \<open>id\<close> (or a
  \<open>config\<close>) key exactly when \<open>config\<close> itself has one.
\<close>

theorem flatten_record_shape:
  assumes "map_of kvs ''id'' = Some i" and "map_of kvs ''config'' = Some (JObj cfg)"
  shows "(\<exists>m. flattenCentralMember (JObj kvs) = Inr (JObj m)
            \<and> fst ` set m = {''nodeId''} \<union> fst ` set cfg \<union> (fst ` set kvs - {''id'', ''config''})
            \<and> (''nodeId'' \<notin> fst ` set cfg \<union> fst ` set kvs \<longrightarrow> map_of m ''nodeId'' = Some i)
            \<and> (''id'' \<in> fst ` set m \<longleftrightarrow> ''id'' \<in> fst ` set cfg)
            \<and> (''config'' \<in> fst ` set m \<longleftrightarrow> ''config'' \<in> fst ` set cfg))
       \<and> (\<exists>n. flattenNetwork (JObj kvs) = Inr (JObj n)
            \<and> fst ` set n = {''nwid''} \<union> fst ` set cfg \<union> (fst ` set kvs - {''id'', ''config''})
            \<and> (''nwid'' \<notin> fst ` set cfg \<union> fst ` set kvs \<longrightarrow> map_of n ''nwid'' = Some i)
            \<and> (''id'' \<in> fst ` set n \<longleftrightarrow> ''id'' \<in> fst ` set cfg)
            \<and> (''config'' \<in> fst ` set n \<longleftrightarrow> ''config'' \<in> fst ` set cfg))"
proof -
  let ?rest = "rest_props (JObj kvs)"
  have rest: "fst ` set ?rest = fst ` set kvs - {''id'', ''config''}"
    by (simp add: keys_rest_props)
  have ident: "map_of (spread (spread [(x, i)] (JObj cfg)) (JObj ?rest)) x = Some i"
    if "x \<notin> fst ` set cfg \<union> fst ` set kvs" for x
  proof -
    from that have "x \<notin> fst ` set (own_props (JObj cfg))" "x \<notin> fst ` set (own_props (JObj ?rest))"
      using rest by auto
    then show ?thesis by (simp add: map_of_spread_absent)
  qed
  have keys: "fst ` set (spread (spread [(x, i)] (JObj cfg)) (JObj ?rest))
                = {x} \<union> fst ` set cfg \<union> (fst ` set kvs - {''id'', ''config''})" for x
    by (simp add: keys_spread rest)
  have m: "flattenCentralMember (JObj kvs)
             = Inr (JObj (spread (spread [(''nodeId'', i)] (JObj cfg)) (JObj ?rest)))"
    using assms by (simp add: flattenCentralMember_def nullish_def)
  have n: "flattenNetwork (JObj kvs)
             = Inr (JObj (spread (spread [(''nwid'', i)] (JObj cfg)) (JObj ?rest)))"
    using assms by (simp add: flattenNetwork_def nullish_def)
  show ?thesis
    unfolding m n using ident [of "''nodeId''"] ident [of "''nwid''"]
    by (auto simp: keys)
qed

text \<open>The hypotheses of C1 hold of a member with one config field and one top-level field.\<close>

theorem flatten_record_shape_witness:
  "map_of [(''id'', JStr ''a''), (''config'', JObj [(''authorized'', JBool True)]), (''name'', JStr ''pc'')] ''id''
      = Some (JStr ''a'')
   \<and> (\<exists>m. flattenCentralMember (JObj [(''id'', JStr ''a''), (''config'', JObj [(''authorized'', JBool True)]),
                                         (''name'', JStr ''pc'')]) = Inr (JObj m)
          \<and> map_of m ''nodeId'' = Some (JStr ''a'') \<and> ''id'' \<notin> fst ` set m)"
proof -
  define cfg where "cfg = [(''authorized'', JBool True)]"
  define kvs where "kvs = [(''id'', JStr ''a''), (''config'', JObj cfg), (''name'', JStr ''pc'')]"
  have h1: "map_of kvs ''id'' = Some (JStr ''a'')" by (simp add: kvs_def)
  have h2: "map_of kvs ''config'' = Some (JObj cfg)" by (simp add: kvs_def)
  have k1: "''nodeId'' \<notin> fst ` set cfg \<union> fst ` set kvs" by (simp add: kvs_def cfg_def)
  have k2: "''id'' \<notin> fst ` set cfg" by (simp add: cfg_def)
  have "\<exists>m. flattenCentralMember (JObj kvs) = Inr (JObj m)
          \<and> map_of m ''nodeId'' = Some (JStr ''a'') \<and> ''id'' \<notin> fst ` set m"
    using flatten_record_shape [OF h1 h2] k1 k2
    by (elim conjE exE) (intro exI conjI, assumption, simp_all)
  then show ?thesis using h1 by (simp add: kvs_def cfg_def)
qed

text \<open>
  C1 as stated fails. A network whose \<open>config\<close> repeats the \<open>id\<close>, as the Central service
  sends it, keeps an \<open>id\<close> key after flattening; and a member that carries its own \<open>nodeId\<close>
  beside the compound \<open>id\<close> comes out with that \<open>nodeId\<close>, not with the \<open>id\<close>.
\<close>

theorem flatten_record_residual_id:
  "flattenNetwork (JObj [(''id'', JStr ''8056c2e21c000001''),
                         (''config'', JObj [(''id'', JStr ''8056c2e21c000001''), (''name'', JStr ''lab'')])])
     = Inr (JObj [(''nwid'', JStr ''8056c2e21c000001''), (''id'', JStr ''8056c2e21c000001''),
                  (''name'', JStr ''lab'')])
   \<and> flattenCentralMember (JObj [(''id'', JStr ''8056c2e21c000001-1122334455''),
                                 (''config'', JObj [(''authorized'', JBool True)]),
                                 (''nodeId'', JStr ''1122334455'')])
     = Inr (JObj [(''nodeId'', JStr ''1122334455''), (''authorized'', JBool True)])"
  by (simp add: flattenNetwork_def flattenCentralMember_def nullish_def spread_def rest_props_def)

text \<open>
  C2 (as the code has it). When \<open>config\<close> and the remaining top-level fields share a key,
  \<open>flattenCentralMember\<close> and \<open>flattenNetwork\<close> spread the top-level fields last, so the
  top-level value is the one in the result; the network object built inside
  \<open>central_network_detail\<close> spreads \<open>config\<close> last, so there the config value is.
\<close>

theorem flatten_collision_top_level_wins:
  assumes "k \<noteq> ''id''" and "k \<noteq> ''config''"
    and "distinct (map fst kvs)" and "distinct (map fst cfg)"
    and "map_of kvs k = Some tv"
    and "map_of kvs ''config'' = Some (JObj cfg)" and "map_of cfg k = Some cv"
  shows "(\<exists>m. flattenCentralMember (JObj kvs) = Inr m \<and> get_prop m k = tv)
       \<and> (\<exists>n. flattenNetwork (JObj kvs) = Inr n \<and> get_prop n k = tv)
       \<and> get_prop (central_network_record cidr (JObj kvs)) k = cv"
proof -
  let ?rest = "rest_props (JObj kvs)"
  have rest: "map_of ?rest k = Some tv"
    using assms by (simp add: map_of_rest_props)
  have drest: "distinct (map fst (own_props (JObj ?rest)))"
    using assms(3) distinct_rest_props [of "JObj kvs"] by simp
  have flat: "map_of (spread (spread base (JObj cfg)) (JObj ?rest)) k = Some tv" for base
    using rest drest by (simp add: map_of_spread map_add_def)
  have merged: "map_of (spread (spread base (JObj ?rest)) (JObj cfg)) k = Some cv" for base
    using assms(4,7) by (simp add: map_of_spread map_add_def)
  have "get_prop (central_network_record cidr (JObj kvs)) k = cv"
    using assms(6) merged by (simp add: central_network_record_def Let_def)
  moreover have "\<exists>m. flattenCentralMember (JObj kvs) = Inr m \<and> get_prop m k = tv"
    using assms(6) flat by (simp add: flattenCentralMember_def nullish_def Let_def)
  moreover have "\<exists>n. flattenNetwork (JObj kvs) = Inr n \<and> get_prop n k = tv"
    using assms(6) flat by (simp add: flattenNetwork_def nullish_def Let_def)
  ultimately show ?thesis by simp
qed

text \<open>C2 as stated fails: on a shared \<open>name\<close> key both flatteners return the top-level
  value, not the one of \<open>config\<close>.\<close>

theorem flatten_collision_counterexample:
  "flattenCentralMember (JObj [(''id'', JStr ''a''), (''config'', JObj [(''name'', JStr ''from config'')]),
                               (''name'', JStr ''from top level'')])
     = Inr (JObj [(''nodeId'', JStr ''a''), (''name'', JStr ''from top level'')])
   \<and> flattenNetwork (JObj [(''id'', JStr ''a''), (''config'', JObj [(''name'', JStr ''from config'')]),
                           (''name'', JStr ''from top level'')])
     = Inr (JObj [(''nwid'', JStr ''a''), (''name'', JStr ''from top level'')])"
  by (simp add: flattenNetwork_def flattenCentralMember_def nullish_def spread_def rest_props_def)

text \<open>The hypotheses of C2 hold of a record with \<open>name\<close> at both levels.\<close>

theorem flatten_collision_top_level_wins_witness:
  "(\<exists>m. flattenCentralMember (JObj [(''id'', JStr ''a''), (''config'', JObj [(''name'', JStr ''c'')]),
                                     (''name'', JStr ''t'')]) = Inr m \<and> get_prop m ''name'' = JStr ''t'')
   \<and> get_prop (central_network_record JNull
                 (JObj [(''id'', JStr ''a''), (''config'', JObj [(''name'', JStr ''c'')]), (''name'', JStr ''t'')]))
               ''name'' = JStr ''c''"
proof -
  define kvs where "kvs = [(''id'', JStr ''a''), (''config'', JObj [(''name'', JStr ''c'')]), (''name'', JStr ''t'')]"
  have "distinct (map fst kvs)" and "distinct (map fst [(''name'', JStr ''c'')])"
    and "map_of kvs ''name'' = Some (JStr ''t'')"
    and "map_of kvs ''config'' = Some (JObj [(''name'', JStr ''c'')])"
    and "map_of [(''name'', JStr ''c'')] ''name'' = Some (JStr ''c'')"
    by (simp_all add: kvs_def)
  from flatten_collision_top_level_wins [OF _ _ this, of JNull]
  show ?thesis unfolding kvs_def by simp
qed

text \<open>
  C3. \<open>flattenCentralMembers\<close> guards against a missing sequence, \<open>flattenNetworks\<close> does
  not: on \<open>null\<close> and on \<open>undefined\<close> it calls \<open>map\<close> on the missing value and throws.
\<close>

theorem flattenNetworks_null_throws:
  "flattenNetworks JNull = Inl TypeError \<and> flattenNetworks JUndefined = Inl TypeError"
  by (simp add: flattenNetworks_def)

text \<open>The member flattener returns the empty sequence on \<open>null\<close>, on \<open>undefined\<close> and on
  every other falsy value, and both flatteners map the empty sequence to itself.\<close>

lemma flattenCentralMembers_falsy: "\<not> truthy members \<Longrightarrow> flattenCentralMembers members = Inr (JArr [])"
  by (simp add: flattenCentralMembers_def)

lemma flatten_empty_sequence:
  "flattenCentralMembers (JArr []) = Inr (JArr [])" "flattenNetworks (JArr []) = Inr (JArr [])"
  by (simp_all add: flattenCentralMembers_def flattenNetworks_def)

section \<open>Transport wrapper and failing loudly\<close>

lemma replies_ok_append:
  "replies_ok env h (a @ b) = (replies_ok env h a \<and> replies_ok env (h @ a) b)"
  by (induction a arbitrary: h) auto

lemma reply_bodies_append:
  "reply_bodies env h (a @ b) = reply_bodies env h a @ reply_bodies env (h @ a) b"
  by (induction a arbitrary: h) auto

lemma length_reply_bodies [simp]: "length (reply_bodies env h rqs) = length rqs"
  by (induction rqs arbitrary: h) auto

lemma axios_request_run:
  "axios_request env rq w =
     (case server env (trace w) rq of
        Status s d \<Rightarrow> if 200 \<le> s \<and> s < 300 then Inr (s, d) else Inl (AxiosError (Some s))
      | NoResponse \<Rightarrow> Inl (AxiosError None),
      w\<lparr>trace := trace w @ [rq]\<rparr>)"
  by (cases "server env (trace w) rq") (simp_all add: axios_request_def Let_def)

lemma getData_world: "snd (getData env a hs w) = w\<lparr>trace := trace w @ [GET_request a hs]\<rparr>"
  by (cases "server env (trace w) (GET_request a hs)")
     (auto simp: getData_def try_catch_def await_def axios_request_run ret_def throw_def)

lemma getData_ok:
  "replied_ok (server env (trace w) (GET_request a hs)) \<Longrightarrow>
   fst (getData env a hs w) = Inr (reply_body (server env (trace w) (GET_request a hs)))"
  by (cases "server env (trace w) (GET_request a hs)")
     (auto simp: getData_def try_catch_def await_def axios_request_run ret_def throw_def replied_ok_def
                 threw_def)

lemma getData_failed:
  "\<not> replied_ok (server env (trace w) (GET_request a hs)) \<Longrightarrow> threw wrapped (fst (getData env a hs w))"
  by (cases "server env (trace w) (GET_request a hs)")
     (auto simp: getData_def try_catch_def await_def axios_request_run ret_def throw_def replied_ok_def
                 threw_def)

lemma getData_status:
  "server env (trace w) (GET_request a hs) = Status s d \<Longrightarrow>
   fst (getData env a hs w) =
     (if 200 \<le> s \<and> s < 300 then Inr d
      else if s = 401 then Inl (APIError ''Invalid API Key'' (Some (AxiosError (Some s))))
      else if s = 404 then Inl (APIError ''Endpoint Not Found'' (Some (AxiosError (Some s))))
      else Inl (APIError (''An error occurred fetching data from '' @ a) (Some (AxiosError (Some s)))))"
  by (simp add: getData_def try_catch_def await_def axios_request_run ret_def throw_def)

lemma getData_no_response:
  "server env (trace w) (GET_request a hs) = NoResponse \<Longrightarrow>
   fst (getData env a hs w) =
     Inl (APIError (''An error occurred fetching data from '' @ a) (Some (AxiosError None)))"
  by (simp add: getData_def try_catch_def await_def axios_request_run ret_def throw_def)

lemma postData_world:
  "snd (postData env a hs p w) = w\<lparr>trace := trace w @ [POST_request a hs p]\<rparr>"
  by (cases "server env (trace w) (POST_request a hs p)")
     (auto simp: postData_def try_catch_def await_def axios_request_run ret_def throw_def)

lemma postData_ok:
  "replied_ok (server env (trace w) (POST_request a hs p)) \<Longrightarrow>
   fst (postData env a hs p w) = Inr (reply_body (server env (trace w) (POST_request a hs p)))"
  by (cases "server env (trace w) (POST_request a hs p)")
     (auto simp: postData_def try_catch_def await_def axios_request_run ret_def throw_def replied_ok_def)

lemma postData_failed:
  "\<not> replied_ok (server env (trace w) (POST_request a hs p)) \<Longrightarrow>
   fst (postData env a hs p w) =
     Inl (APIError (''An error occurred while posting data to '' @ a)
            (Some (AxiosError (case server env (trace w) (POST_request a hs p) of
                                 Status s d \<Rightarrow> Some s | NoResponse \<Rightarrow> None))))"
  by (cases "server env (trace w) (POST_request a hs p)")
     (auto simp: postData_def try_catch_def await_def axios_request_run ret_def throw_def replied_ok_def)











section \<open>Sequential member fetch\<close>

lemma getData_cases:
  obtains (ok) "replied_ok (server env (trace w) (GET_request a hs))"
      "getData env a hs w = (Inr (reply_body (server env (trace w) (GET_request a hs))),
                             w\<lparr>trace := trace w @ [GET_request a hs]\<rparr>)"
  | (failed) e where "\<not> replied_ok (server env (trace w) (GET_request a hs))"
      "getData env a hs w = (Inl e, w\<lparr>trace := trace w @ [GET_request a hs]\<rparr>)" "wrapped e"
proof (cases "replied_ok (server env (trace w) (GET_request a hs))")
  case True
  with getData_ok [OF True] getData_world [of env a hs w] ok show ?thesis
    by (metis prod.collapse)
next
  case False
  from getData_failed [OF False] obtain e where "fst (getData env a hs w) = Inl e" "wrapped e"
    by (cases "fst (getData env a hs w)") (auto simp: threw_def)
  with False getData_world [of env a hs w] failed show ?thesis
    by (metis prod.collapse)
qed

lemma fetch_member_details_Cons:
  "fetch_member_details env nwid hs (i # ids) acc =
     await (getData env (detail_addr env nwid i) hs)
           (\<lambda>d. fetch_member_details env nwid hs ids (acc @ [d]))"
  by (simp add: detail_addr_def)

declare fetch_member_details.simps(2) [simp del]

lemma fetch_member_details_run:
  "\<exists>k \<le> length ids.
      snd (fetch_member_details env nwid hs ids acc w)
        = w\<lparr>trace := trace w @ map (detail_request env nwid hs) (take k ids)\<rparr>
    \<and> replies_ok env (trace w) (butlast (map (detail_request env nwid hs) (take k ids)))
    \<and> (case fst (fetch_member_details env nwid hs ids acc w) of
          Inr out \<Rightarrow> k = length ids
                    \<and> replies_ok env (trace w) (map (detail_request env nwid hs) ids)
                    \<and> out = acc @ reply_bodies env (trace w) (map (detail_request env nwid hs) ids)
        | Inl e \<Rightarrow> wrapped e
                  \<and> \<not> replies_ok env (trace w) (map (detail_request env nwid hs) (take k ids)))"
proof (induction ids arbitrary: acc w)
  case Nil
  then show ?case by (simp add: ret_def)
next
  case (Cons i ids)
  let ?rq = "detail_request env nwid hs i"
  let ?a = "detail_addr env nwid i"
  have rq: "GET_request ?a hs = ?rq" by (simp add: detail_request_def)
  show ?case
  proof (cases rule: getData_cases [where env = env and w = w and a = ?a and hs = hs])
    case ok
    let ?d = "reply_body (server env (trace w) ?rq)"
    let ?w1 = "w\<lparr>trace := trace w @ [?rq]\<rparr>"
    from ok have run: "fetch_member_details env nwid hs (i # ids) acc w
                        = fetch_member_details env nwid hs ids (acc @ [?d]) ?w1"
      by (simp add: fetch_member_details_Cons await_def rq)
    from Cons.IH [of "acc @ [?d]" ?w1] obtain k where k: "k \<le> length ids"
      and tr: "snd (fetch_member_details env nwid hs ids (acc @ [?d]) ?w1)
                 = ?w1\<lparr>trace := trace ?w1 @ map (detail_request env nwid hs) (take k ids)\<rparr>"
      and bl: "replies_ok env (trace ?w1) (butlast (map (detail_request env nwid hs) (take k ids)))"
      and res: "(case fst (fetch_member_details env nwid hs ids (acc @ [?d]) ?w1) of
          Inr out \<Rightarrow> k = length ids
                    \<and> replies_ok env (trace ?w1) (map (detail_request env nwid hs) ids)
                    \<and> out = (acc @ [?d]) @ reply_bodies env (trace ?w1) (map (detail_request env nwid hs) ids)
        | Inl e \<Rightarrow> wrapped e
                  \<and> \<not> replies_ok env (trace ?w1) (map (detail_request env nwid hs) (take k ids)))"
      by blast
    have ok': "replied_ok (server env (trace w) ?rq)" using ok(1) rq by simp
    have "Suc k \<le> length (i # ids)" using k by simp
    moreover have "snd (fetch_member_details env nwid hs (i # ids) acc w)
        = w\<lparr>trace := trace w @ map (detail_request env nwid hs) (take (Suc k) (i # ids))\<rparr>"
      using run tr by simp
    moreover have "replies_ok env (trace w)
                     (butlast (map (detail_request env nwid hs) (take (Suc k) (i # ids))))"
      using bl ok' by simp
    moreover have "(case fst (fetch_member_details env nwid hs (i # ids) acc w) of
          Inr out \<Rightarrow> Suc k = length (i # ids)
                    \<and> replies_ok env (trace w) (map (detail_request env nwid hs) (i # ids))
                    \<and> out = acc @ reply_bodies env (trace w) (map (detail_request env nwid hs) (i # ids))
        | Inl e \<Rightarrow> wrapped e
                  \<and> \<not> replies_ok env (trace w) (map (detail_request env nwid hs) (take (Suc k) (i # ids))))"
      using res ok' unfolding run by (auto split: sum.splits)
    ultimately show ?thesis by blast
  next
    case (failed e)
    from failed have run: "fetch_member_details env nwid hs (i # ids) acc w
                        = (Inl e, w\<lparr>trace := trace w @ [?rq]\<rparr>)"
      by (simp add: fetch_member_details_Cons await_def rq)
    have "(1::nat) \<le> length (i # ids)" by simp
    moreover have "snd (fetch_member_details env nwid hs (i # ids) acc w)
        = w\<lparr>trace := trace w @ map (detail_request env nwid hs) (take 1 (i # ids))\<rparr>"
      using run by simp
    moreover have "replies_ok env (trace w)
                     (butlast (map (detail_request env nwid hs) (take 1 (i # ids))))"
      by simp
    moreover have "(case fst (fetch_member_details env nwid hs (i # ids) acc w) of
          Inr out \<Rightarrow> 1 = length (i # ids)
                    \<and> replies_ok env (trace w) (map (detail_request env nwid hs) (i # ids))
                    \<and> out = acc @ reply_bodies env (trace w) (map (detail_request env nwid hs) (i # ids))
        | Inl e \<Rightarrow> wrapped e
                  \<and> \<not> replies_ok env (trace w) (map (detail_request env nwid hs) (take 1 (i # ids))))"
      using failed(1,3) rq unfolding run by simp
    ultimately show ?thesis by blast
  qed
qed

lemma await_Inr: "m w = (Inr x, w1) \<Longrightarrow> await m f w = f x w1"
  by (simp add: await_def)

lemma await_Inl: "m w = (Inl e, w1) \<Longrightarrow> await m f w = (Inl e, w1)"
  by (simp add: await_def)

lemma try_catch_Inr: "m w = (Inr x, w1) \<Longrightarrow> try_catch m h w = (Inr x, w1)"
  by (simp add: try_catch_def)

lemma try_catch_Inl: "m w = (Inl e, w1) \<Longrightarrow> try_catch m h w = h e w1"
  by (simp add: try_catch_def)

lemma network_members_unfold:
  assumes "getOptions env c = Inr opts"
  shows "network_members env nwid c =
           try_catch (getData env (members_addr env opts nwid c) (headers opts))
             (\<lambda>error. throw (APIError (CENTRAL_prefix c
                                        @ ''An error occurred while getting network_members'')
                                      (Some error)))"
  using assms by (auto simp: network_members_def await_def lift_def members_addr_def fun_eq_iff)

lemma network_members_cases:
  assumes "getOptions env c = Inr opts"
  obtains (ok) "replied_ok (server env (trace w) (GET_request (members_addr env opts nwid c) (headers opts)))"
      "network_members env nwid c w
         = (Inr (reply_body (server env (trace w) (GET_request (members_addr env opts nwid c) (headers opts)))),
            w\<lparr>trace := trace w @ [GET_request (members_addr env opts nwid c) (headers opts)]\<rparr>)"
  | (failed) e where
      "\<not> replied_ok (server env (trace w) (GET_request (members_addr env opts nwid c) (headers opts)))"
      "network_members env nwid c w
         = (Inl (APIError (CENTRAL_prefix c @ ''An error occurred while getting network_members'') (Some e)),
            w\<lparr>trace := trace w @ [GET_request (members_addr env opts nwid c) (headers opts)]\<rparr>)"
proof (cases rule: getData_cases [where env = env and w = w
          and a = "members_addr env opts nwid c" and hs = "headers opts"])
  case ok
  then show ?thesis
    using that(1) by (simp add: network_members_unfold [OF assms] try_catch_Inr)
next
  case (failed e)
  then show ?thesis
    using that(2) by (simp add: network_members_unfold [OF assms] try_catch_Inl throw_def)
qed

lemma getOptions_False:
  "getOptions env False = Inr \<lparr>ztCentralApiUrl = None, headers = local_headers env\<rparr>"
  by (simp add: getOptions_def local_headers_def)

lemma network_members_local_cases:
  obtains (ok) "replied_ok (server env (trace w) (local_members_request env nwid))"
      "network_members env nwid False w
         = (Inr (reply_body (server env (trace w) (local_members_request env nwid))),
            w\<lparr>trace := trace w @ [local_members_request env nwid]\<rparr>)"
  | (failed) e where
      "\<not> replied_ok (server env (trace w) (local_members_request env nwid))"
      "network_members env nwid False w
         = (Inl (APIError ''An error occurred while getting network_members'' (Some e)),
            w\<lparr>trace := trace w @ [local_members_request env nwid]\<rparr>)"
proof -
  let ?o = "\<lparr>ztCentralApiUrl = None, headers = local_headers env\<rparr>"
  have eq: "GET_request (members_addr env ?o nwid False) (headers ?o) = local_members_request env nwid"
    by (simp add: members_addr_def local_members_request_def)
  have px: "CENTRAL_prefix False @ ''An error occurred while getting network_members''
              = ''An error occurred while getting network_members''"
    by (simp add: CENTRAL_prefix_def)
  from getOptions_False [of env] show ?thesis
  proof (cases rule: network_members_cases [where w = w and nwid = nwid])
    case ok
    from ok [unfolded eq] show ?thesis by (rule that(1))
  next
    case (failed e)
    from failed [unfolded eq px] show ?thesis by (rule that(2))
  qed
qed

lemma replies_ok_take: "replies_ok env h rqs \<Longrightarrow> replies_ok env h (take k rqs)"
proof (induction rqs arbitrary: h k)
  case Nil
  then show ?case by simp
next
  case (Cons rq rqs)
  then show ?case by (cases k) auto
qed

lemma local_network_detail_unfold:
  assumes "getOptions env c = Inr opts"
  shows "local_network_detail env nwid c =
       try_catch
         (await (network_members env nwid False) (\<lambda>members.
          await (getData env (network_addr env opts nwid False) (headers opts))
            (\<lambda>network.
          await (if nullish members then throw TypeError
                 else fetch_member_details env nwid (headers opts)
                        (map fst (own_props members)) [])
            (\<lambda>membersArr.
          ret (JObj [(''network'', JObj (spread [] network)),
                     (''members'', JArr membersArr)])))))
         (\<lambda>error. throw (APIError local_detail_message (Some error)))"
  using assms
  by (auto simp: local_network_detail_def await_def lift_def network_addr_def fun_eq_iff
                 local_detail_message_def)

lemma local_network_detail_run:
  fixes env nwid w c
  assumes opts: "getOptions env c = Inr opts"
  defines "hs \<equiv> headers opts"
  defines "GETm \<equiv> local_members_request env nwid"
  defines "GETn \<equiv> GET_request (network_addr env opts nwid False) hs"
  defines "members \<equiv> reply_body (server env (trace w) GETm)"
  defines "network \<equiv> reply_body (server env (trace w @ [GETm]) GETn)"
  defines "details \<equiv> map (detail_request env nwid hs) (map fst (own_props members))"
  defines "plan \<equiv> [GETm, GETn] @ details"
  defines "result \<equiv> JObj [(''network'', JObj (spread [] network)),
                           (''members'', JArr (reply_bodies env (trace w @ [GETm, GETn]) details))]"
  defines "run \<equiv> local_network_detail env nwid c w"
  shows "\<exists>k. trace (snd run) = trace w @ take k plan
            \<and> replies_ok env (trace w) (butlast (take k plan))
            \<and> (take k plan \<noteq> plan \<longrightarrow> \<not> replies_ok env (trace w) (take k plan))
            \<and> (case fst run of
                  Inr v \<Rightarrow> take k plan = plan \<and> replies_ok env (trace w) plan
                           \<and> \<not> nullish members \<and> v = result
                | Inl e \<Rightarrow> (\<exists>cause. e = APIError local_detail_message (Some cause)))
            \<and> (replies_ok env (trace w) (take k plan) \<or> isl (fst run))
            \<and> (replies_ok env (trace w) plan \<longrightarrow>
                 fst run = (if nullish members
                            then Inl (APIError local_detail_message (Some TypeError))
                            else Inr result))"
proof (cases rule: network_members_local_cases [where env = env and w = w and nwid = nwid])
  case (failed e)
  have run: "run = (Inl (APIError local_detail_message
                      (Some (APIError ''An error occurred while getting network_members'' (Some e)))),
                    w\<lparr>trace := trace w @ [GETm]\<rparr>)"
    unfolding run_def local_network_detail_unfold [OF opts]
    using failed(2) by (simp add: try_catch_Inl await_Inl throw_def GETm_def)
  have bad: "\<not> replied_ok (server env (trace w) GETm)"
    using failed(1) by (simp add: GETm_def)
  have A: "trace (snd run) = trace w @ take 1 plan" by (simp add: run plan_def)
  have B: "replies_ok env (trace w) (butlast (take 1 plan))" by (simp add: plan_def)
  have C: "take 1 plan \<noteq> plan \<longrightarrow> \<not> replies_ok env (trace w) (take 1 plan)"
    using bad by (simp add: plan_def)
  have D: "(case fst run of
                  Inr v \<Rightarrow> take 1 plan = plan \<and> replies_ok env (trace w) plan
                           \<and> \<not> nullish members \<and> v = result
                | Inl e \<Rightarrow> (\<exists>cause. e = APIError local_detail_message (Some cause)))"
    by (simp add: run)
  have E: "replies_ok env (trace w) (take 1 plan) \<or> isl (fst run)" by (simp add: run)
  have F: "replies_ok env (trace w) plan \<longrightarrow>
                 fst run = (if nullish members
                            then Inl (APIError local_detail_message (Some TypeError))
                            else Inr result)"
    using bad by (simp add: plan_def)
  show ?thesis by (intro exI [of _ 1] conjI) (fact A B C D E F)+
next
  case ok
  let ?w1 = "w\<lparr>trace := trace w @ [GETm]\<rparr>"
  have m: "network_members env nwid False w = (Inr members, ?w1)"
    using ok(2) by (simp add: members_def GETm_def)
  have okm: "replied_ok (server env (trace w) GETm)"
    using ok(1) by (simp add: GETm_def)
  show ?thesis
  proof (cases rule: getData_cases [where env = env and w = ?w1
            and a = "network_addr env opts nwid False" and hs = hs])
    case (failed e)
    have run: "run = (Inl (APIError local_detail_message (Some e)), w\<lparr>trace := trace w @ [GETm, GETn]\<rparr>)"
      unfolding run_def local_network_detail_unfold [OF opts]
      using failed(2) m
      by (simp add: try_catch_Inl await_Inl await_Inr throw_def GETn_def hs_def)
    have bad: "\<not> replied_ok (server env (trace w @ [GETm]) GETn)"
      using failed(1) by (simp add: GETn_def)
    have A: "trace (snd run) = trace w @ take 2 plan" by (simp add: run plan_def)
    have B: "replies_ok env (trace w) (butlast (take 2 plan))" using okm by (simp add: plan_def)
    have C: "take 2 plan \<noteq> plan \<longrightarrow> \<not> replies_ok env (trace w) (take 2 plan)"
      using bad by (simp add: plan_def)
    have D: "(case fst run of
                  Inr v \<Rightarrow> take 2 plan = plan \<and> replies_ok env (trace w) plan
                           \<and> \<not> nullish members \<and> v = result
                | Inl e \<Rightarrow> (\<exists>cause. e = APIError local_detail_message (Some cause)))"
      by (simp add: run)
    have E: "replies_ok env (trace w) (take 2 plan) \<or> isl (fst run)" by (simp add: run)
    have F: "replies_ok env (trace w) plan \<longrightarrow>
                 fst run = (if nullish members
                            then Inl (APIError local_detail_message (Some TypeError))
                            else Inr result)"
      using bad by (simp add: plan_def)
    show ?thesis by (intro exI [of _ 2] conjI) (fact A B C D E F)+
  next
    case ok
    let ?w2 = "w\<lparr>trace := trace w @ [GETm, GETn]\<rparr>"
    have n: "getData env (network_addr env opts nwid False) (headers opts) ?w1 = (Inr network, ?w2)"
      using ok(2) by (simp add: network_def GETn_def hs_def)
    have okn: "replied_ok (server env (trace w @ [GETm]) GETn)"
      using ok(1) by (simp add: GETn_def hs_def)
    have ok2: "replies_ok env (trace w) [GETm, GETn]"
      using okm okn by simp
    show ?thesis
    proof (cases "nullish members")
      case True
      have run: "run = (Inl (APIError local_detail_message (Some TypeError)), ?w2)"
        unfolding run_def local_network_detail_unfold [OF opts]
        using m n True
        by (simp add: try_catch_Inl await_Inl await_Inr throw_def)
      have none: "details = []"
        using True by (auto simp: details_def nullish_def)
      have A: "trace (snd run) = trace w @ take 2 plan" by (simp add: run plan_def)
      have B: "replies_ok env (trace w) (butlast (take 2 plan))" using okm by (simp add: plan_def)
      have C: "take 2 plan \<noteq> plan \<longrightarrow> \<not> replies_ok env (trace w) (take 2 plan)"
        by (simp add: plan_def none)
      have D: "(case fst run of
                  Inr v \<Rightarrow> take 2 plan = plan \<and> replies_ok env (trace w) plan
                           \<and> \<not> nullish members \<and> v = result
                | Inl e \<Rightarrow> (\<exists>cause. e = APIError local_detail_message (Some cause)))"
        by (simp add: run)
      have E: "replies_ok env (trace w) (take 2 plan) \<or> isl (fst run)" by (simp add: run)
      have F: "replies_ok env (trace w) plan \<longrightarrow>
                 fst run = (if nullish members
                            then Inl (APIError local_detail_message (Some TypeError))
                            else Inr result)"
        using True by (simp add: run)
      show ?thesis by (intro exI [of _ 2] conjI) (fact A B C D E F)+
    next
      case False
      let ?ids = "map fst (own_props members)"
      let ?loop = "fetch_member_details env nwid hs ?ids [] ?w2"
      from fetch_member_details_run [of ?ids env nwid hs "[]" ?w2]
      obtain k where k: "k \<le> length ?ids"
        and tr: "snd ?loop = ?w2\<lparr>trace := trace ?w2 @ map (detail_request env nwid hs) (take k ?ids)\<rparr>"
        and bl: "replies_ok env (trace ?w2) (butlast (map (detail_request env nwid hs) (take k ?ids)))"
        and res: "(case fst ?loop of
            Inr out \<Rightarrow> k = length ?ids
                      \<and> replies_ok env (trace ?w2) (map (detail_request env nwid hs) ?ids)
                      \<and> out = [] @ reply_bodies env (trace ?w2) (map (detail_request env nwid hs) ?ids)
          | Inl e \<Rightarrow> wrapped e
                    \<and> \<not> replies_ok env (trace ?w2) (map (detail_request env nwid hs) (take k ?ids)))"
        by blast
      have tk: "take (2 + k) plan = [GETm, GETn] @ map (detail_request env nwid hs) (take k ?ids)"
        by (simp add: plan_def details_def take_map)
      have tkd: "map (detail_request env nwid hs) (take k ?ids) = take k details"
        by (simp add: details_def take_map)
      have trace_run: "trace (snd run) = trace (snd ?loop)"
        and fst_run: "fst run = (case fst ?loop of
                         Inl e \<Rightarrow> Inl (APIError local_detail_message (Some e))
                       | Inr out \<Rightarrow> Inr (JObj [(''network'', JObj (spread [] network)),
                                                 (''members'', JArr out)]))"
        unfolding run_def local_network_detail_unfold [OF opts]
        using m n False
        by (cases ?loop; cases "fst ?loop";
            simp add: try_catch_def await_def throw_def ret_def hs_def)+
      have A: "trace (snd run) = trace w @ take (2 + k) plan"
        unfolding trace_run tr tk by simp
      have B: "replies_ok env (trace w) (butlast (take (2 + k) plan))"
      proof (cases "take k ?ids = []")
        case True
        then show ?thesis using okm unfolding tk by simp
      next
        case False
        then have "butlast ([GETm, GETn] @ map (detail_request env nwid hs) (take k ?ids))
                    = [GETm, GETn] @ butlast (map (detail_request env nwid hs) (take k ?ids))"
          by (simp add: butlast_append)
        then show ?thesis using ok2 bl unfolding tk by (simp add: replies_ok_append)
      qed
      have split: "replies_ok env (trace w) ([GETm, GETn] @ xs) = replies_ok env (trace ?w2) xs" for xs
        using ok2 by (simp add: replies_ok_append)
      show ?thesis
      proof (cases "fst ?loop")
        case (Inl e)
        with res have badk: "\<not> replies_ok env (trace ?w2) (take k details)"
          by (simp add: tkd)
        have badp: "\<not> replies_ok env (trace w) plan"
        proof
          assume "replies_ok env (trace w) plan"
          then have "replies_ok env (trace ?w2) details"
            unfolding plan_def split .
          from replies_ok_take [OF this] badk show False by blast
        qed
        have r: "fst run = Inl (APIError local_detail_message (Some e))"
          using fst_run Inl by simp
        have C: "take (2 + k) plan \<noteq> plan \<longrightarrow> \<not> replies_ok env (trace w) (take (2 + k) plan)"
          using badk unfolding tk tkd split by simp
        have D: "(case fst run of
                  Inr v \<Rightarrow> take (2 + k) plan = plan \<and> replies_ok env (trace w) plan
                           \<and> \<not> nullish members \<and> v = result
                | Inl e \<Rightarrow> (\<exists>cause. e = APIError local_detail_message (Some cause)))"
          by (simp add: r)
        have E: "replies_ok env (trace w) (take (2 + k) plan) \<or> isl (fst run)" by (simp add: r)
        have F: "replies_ok env (trace w) plan \<longrightarrow>
                 fst run = (if nullish members
                            then Inl (APIError local_detail_message (Some TypeError))
                            else Inr result)"
          using badp by simp
        show ?thesis by (intro exI [of _ "2 + k"] conjI) (fact A B C D E F)+
      next
        case (Inr out)
        with res have kk: "k = length ?ids"
          and okd: "replies_ok env (trace ?w2) details"
          and out: "out = reply_bodies env (trace ?w2) details"
          by (simp_all add: details_def)
        from kk have full: "take (2 + k) plan = plan"
          by (simp add: plan_def details_def)
        have okp: "replies_ok env (trace w) plan"
          using okd unfolding plan_def split .
        have r: "fst run = Inr result"
          using fst_run Inr out by (simp add: result_def)
        have C: "take (2 + k) plan \<noteq> plan \<longrightarrow> \<not> replies_ok env (trace w) (take (2 + k) plan)"
          using full by simp
        have D: "(case fst run of
                  Inr v \<Rightarrow> take (2 + k) plan = plan \<and> replies_ok env (trace w) plan
                           \<and> \<not> nullish members \<and> v = result
                | Inl e \<Rightarrow> (\<exists>cause. e = APIError local_detail_message (Some cause)))"
          using full okp False by (simp add: r)
        have E: "replies_ok env (trace w) (take (2 + k) plan) \<or> isl (fst run)"
          using full okp by simp
        have F: "replies_ok env (trace w) plan \<longrightarrow>
                 fst run = (if nullish members
                            then Inl (APIError local_detail_message (Some TypeError))
                            else Inr result)"
          using False by (simp add: r)
        show ?thesis by (intro exI [of _ "2 + k"] conjI) (fact A B C D E F)+
      qed
    qed
  qed
qed

text \<open>
  C5 (as the code has it). Local aggregation plans its requests as: the member-id list
  (always asked of the local controller, with the local token), then the network record,
  then one detail request per entry of the list, in the order in which \<open>Object.entries\<close>
  enumerates the list. The requests a call issues are an initial segment of that plan;
  every request but the last one issued was answered with success, and the call stops short
  of the plan only at a request that failed: so the fetches are sequential, each entry is
  fetched exactly once, and nothing is issued after a failure. When the whole plan is
  answered with success the call returns \<open>{network, members}\<close> with the detail bodies in
  order (or, for a \<open>null\<close> list, throws). A result is returned in no other case: the call
  then throws the one wrapped error and returns nothing, whatever details had been fetched.
\<close>

theorem local_network_detail_sequence:
  assumes "getOptions env isCentral = Inr opts"
  shows
    "let hs = headers opts;
         base = LOCAL_ZT_ADDR env @ ''/controller/network/'' @ nwid;
         GETm = GET_request (base @ ''/member'')
                  [(''X-ZT1-Auth'', (case ZT_SECRET env of None \<Rightarrow> JUndefined | Some t \<Rightarrow> JStr t)),
                   (''Content-Type'', JStr ''application/json'')];
         GETn = GET_request base hs;
         members = reply_body (server env (trace w) GETm);
         network = reply_body (server env (trace w @ [GETm]) GETn);
         details = map (\<lambda>memberId. GET_request (base @ ''/member/'' @ memberId) hs)
                       (map fst (own_props members));
         plan = [GETm, GETn] @ details;
         result = JObj [(''network'', JObj (spread [] network)),
                        (''members'', JArr (reply_bodies env (trace w @ [GETm, GETn]) details))];
         run = local_network_detail env nwid isCentral w
     in \<exists>k. trace (snd run) = trace w @ take k plan
            \<and> replies_ok env (trace w) (butlast (take k plan))
            \<and> (take k plan \<noteq> plan \<longrightarrow> \<not> replies_ok env (trace w) (take k plan))
            \<and> (case fst run of
                  Inr v \<Rightarrow>
                    take k plan = plan \<and> replies_ok env (trace w) plan
                    \<and> \<not> nullish members \<and> v = result
                | Inl e \<Rightarrow>
                    (\<exists>cause. e = APIError
                        ''An error occurred while getting data from network_details function''
                        (Some cause)))
            \<and> (replies_ok env (trace w) (take k plan) \<or> isl (fst run))
            \<and> (replies_ok env (trace w) plan \<longrightarrow>
                 fst run = (if nullish members
                            then Inl (APIError
                                   ''An error occurred while getting data from network_details function''
                                   (Some TypeError))
                            else Inr result))"
proof -
  have a: "local_members_request env nwid
             = GET_request ((LOCAL_ZT_ADDR env @ ''/controller/network/'' @ nwid) @ ''/member'')
                 [(''X-ZT1-Auth'', (case ZT_SECRET env of None \<Rightarrow> JUndefined | Some t \<Rightarrow> JStr t)),
                  (''Content-Type'', JStr ''application/json'')]"
    by (simp add: local_members_request_def local_headers_def)
  have b: "network_addr env opts nwid False = LOCAL_ZT_ADDR env @ ''/controller/network/'' @ nwid"
    by (simp add: network_addr_def)
  have c: "detail_request env nwid hs
             = (\<lambda>memberId. GET_request ((LOCAL_ZT_ADDR env @ ''/controller/network/'' @ nwid)
                                          @ ''/member/'' @ memberId) hs)" for hs
    by (simp add: detail_request_def detail_addr_def fun_eq_iff)
  show ?thesis
    unfolding Let_def
    using local_network_detail_run [OF assms, where nwid = nwid and w = w]
    unfolding a b c local_detail_message_def .
qed

section \<open>Fan-out and join\<close>

lemma fan_out_getData:
  "snd (fan_out (\<lambda>m. getData env (g m) hs) xs w)
       = w\<lparr>trace := trace w @ map (\<lambda>m. GET_request (g m) hs) xs\<rparr>
   \<and> length (fst (fan_out (\<lambda>m. getData env (g m) hs) xs w)) = length xs
   \<and> (rejections (fst (fan_out (\<lambda>m. getData env (g m) hs) xs w)) = [])
       = replies_ok env (trace w) (map (\<lambda>m. GET_request (g m) hs) xs)
   \<and> (rejections (fst (fan_out (\<lambda>m. getData env (g m) hs) xs w)) = [] \<longrightarrow>
        fulfilled (fst (fan_out (\<lambda>m. getData env (g m) hs) xs w))
          = reply_bodies env (trace w) (map (\<lambda>m. GET_request (g m) hs) xs))
   \<and> (\<forall>e \<in> set (rejections (fst (fan_out (\<lambda>m. getData env (g m) hs) xs w))). wrapped e)"
proof (induction xs arbitrary: w)
  case Nil
  then show ?case by simp
next
  case (Cons x xs)
  let ?w1 = "w\<lparr>trace := trace w @ [GET_request (g x) hs]\<rparr>"
  let ?rest = "fan_out (\<lambda>m. getData env (g m) hs) xs ?w1"
  note IH = Cons.IH [of ?w1]
  show ?case
  proof (cases rule: getData_cases [where env = env and w = w and a = "g x" and hs = hs])
    case ok
    then have "fan_out (\<lambda>m. getData env (g m) hs) (x # xs) w
                 = (Inr (reply_body (server env (trace w) (GET_request (g x) hs))) # fst ?rest, snd ?rest)"
      by (simp add: case_prod_unfold)
    with IH ok(1) show ?thesis by simp
  next
    case (failed e)
    then have "fan_out (\<lambda>m. getData env (g m) hs) (x # xs) w = (Inl e # fst ?rest, snd ?rest)"
      by (simp add: case_prod_unfold)
    with IH failed(1,3) show ?thesis by simp
  qed
qed

lemma Promise_all_getData:
  "snd (Promise_all env (\<lambda>m. getData env (g m) hs) xs w)
       = w\<lparr>trace := trace w @ map (\<lambda>m. GET_request (g m) hs) xs\<rparr>"
  "replies_ok env (trace w) (map (\<lambda>m. GET_request (g m) hs) xs) \<Longrightarrow>
     fst (Promise_all env (\<lambda>m. getData env (g m) hs) xs w)
       = Inr (reply_bodies env (trace w) (map (\<lambda>m. GET_request (g m) hs) xs))"
  "\<not> replies_ok env (trace w) (map (\<lambda>m. GET_request (g m) hs) xs) \<Longrightarrow>
     \<exists>e. fst (Promise_all env (\<lambda>m. getData env (g m) hs) xs w) = Inl e \<and> wrapped e"
proof -
  let ?f = "fan_out (\<lambda>m. getData env (g m) hs) xs w"
  let ?errs = "rejections (fst ?f)"
  note f = fan_out_getData [of env g hs xs w]
  have run: "Promise_all env (\<lambda>m. getData env (g m) hs) xs w
               = (if ?errs = [] then Inr (fulfilled (fst ?f))
                  else Inl (?errs ! (first_rejected env (length ?errs) mod length ?errs)), snd ?f)"
    by (simp add: Promise_all_def case_prod_unfold Let_def)
  show "snd (Promise_all env (\<lambda>m. getData env (g m) hs) xs w)
       = w\<lparr>trace := trace w @ map (\<lambda>m. GET_request (g m) hs) xs\<rparr>"
    using f by (simp add: run)
  show "fst (Promise_all env (\<lambda>m. getData env (g m) hs) xs w)
       = Inr (reply_bodies env (trace w) (map (\<lambda>m. GET_request (g m) hs) xs))"
    if "replies_ok env (trace w) (map (\<lambda>m. GET_request (g m) hs) xs)"
    using f that by (simp add: run)
  show "\<exists>e. fst (Promise_all env (\<lambda>m. getData env (g m) hs) xs w) = Inl e \<and> wrapped e"
    if "\<not> replies_ok env (trace w) (map (\<lambda>m. GET_request (g m) hs) xs)"
  proof -
    from f that have ne: "?errs \<noteq> []" by simp
    then have "?errs ! (first_rejected env (length ?errs) mod length ?errs) \<in> set ?errs"
      by simp
    with f have "wrapped (?errs ! (first_rejected env (length ?errs) mod length ?errs))"
      by blast
    with ne show ?thesis by (simp add: run)
  qed
qed

lemma array_map_length: "array_map f xs = Inr ys \<Longrightarrow> length ys = length xs"
  by (induction xs arbitrary: ys) (auto split: sum.splits)

lemma flattenCentralMembers_array:
  "flattenCentralMembers (JArr xs) = Inr v \<Longrightarrow> \<exists>flat. v = JArr flat \<and> length flat = length xs"
  by (cases "array_map flattenCentralMember xs")
     (auto simp: flattenCentralMembers_def dest: array_map_length)

lemma await_lift_Inr: "await (lift (Inr x)) f = f x"
  by (simp add: await_def lift_def fun_eq_iff)

lemma central_network_detail_unfold:
  assumes "getOptions env c = Inr opts"
  shows "central_network_detail env nwid c =
       try_catch
         (await (network_members env nwid c) (\<lambda>members.
          await (getData env (network_addr env opts nwid c) (headers opts)) (\<lambda>network.
          await (case members of
                   JArr ms \<Rightarrow>
                     Promise_all env
                       (\<lambda>member. getData env (member_detail_addr (network_addr env opts nwid c) member)
                                    (headers opts)) ms
                 | _ \<Rightarrow> throw TypeError)
            (\<lambda>membersArr.
          if nullish network then throw TypeError
          else await (lift (flattenCentralMembers (JArr membersArr))) (\<lambda>flat.
                 ret (JObj [(''network'', central_network_record (cidrOptions env) network),
                            (''members'', JArr (array_spread flat))]))))))
         (\<lambda>error. throw (APIError (central_detail_message c) (Some error)))"
  unfolding central_network_detail_def assms await_lift_Inr network_addr_def
    central_detail_message_def Let_def
  by (rule refl)

lemma members_addr_network_addr:
  "members_addr env opts nwid c = network_addr env opts nwid c @ ''/member''"
  by (simp add: members_addr_def network_addr_def)

lemma central_network_detail_plan:
  fixes env nwid w c
  assumes opts: "getOptions env c = Inr opts"
  defines "hs \<equiv> headers opts"
  defines "addr \<equiv> network_addr env opts nwid c"
  defines "GETm \<equiv> GET_request (addr @ ''/member'') hs"
  defines "GETn \<equiv> GET_request addr hs"
  defines "network \<equiv> reply_body (server env (trace w @ [GETm]) GETn)"
  defines "details \<equiv> (\<lambda>ms. map (\<lambda>member. GET_request (member_detail_addr addr member) hs) ms)"
  defines "run \<equiv> central_network_detail env nwid c w"
  assumes okm: "replied_ok (server env (trace w) GETm)"
    and ms: "reply_body (server env (trace w) GETm) = JArr ms"
    and okn: "replied_ok (server env (trace w @ [GETm]) GETn)"
  shows "trace (snd run) = trace w @ [GETm, GETn] @ details ms"
    and "\<not> replies_ok env (trace w @ [GETm, GETn]) (details ms) \<Longrightarrow>
           \<exists>cause. fst run = Inl (APIError (central_detail_message c) (Some cause))"
    and "fst run = Inr v \<Longrightarrow>
           replies_ok env (trace w @ [GETm, GETn]) (details ms)
           \<and> (\<exists>flat. v = JObj [(''network'', central_network_record (cidrOptions env) network),
                               (''members'', JArr flat)]
                     \<and> length flat = length ms)"
    and "fst run = Inl e \<Longrightarrow> \<exists>cause. e = APIError (central_detail_message c) (Some cause)"
proof -
  let ?w1 = "w\<lparr>trace := trace w @ [GETm]\<rparr>"
  let ?w2 = "w\<lparr>trace := trace w @ [GETm, GETn]\<rparr>"
  let ?w3 = "w\<lparr>trace := trace w @ [GETm, GETn] @ details ms\<rparr>"
  let ?P = "Promise_all env (\<lambda>member. getData env (member_detail_addr addr member) hs) ms ?w2"
  have m: "network_members env nwid c w = (Inr (JArr ms), ?w1)"
    using opts
  proof (cases rule: network_members_cases [where w = w and nwid = nwid])
    case ok
    then show ?thesis using ms by (simp add: GETm_def addr_def hs_def members_addr_network_addr)
  next
    case (failed e)
    then show ?thesis using okm by (simp add: GETm_def addr_def hs_def members_addr_network_addr)
  qed
  have n: "getData env addr hs ?w1 = (Inr network, ?w2)"
  proof (cases rule: getData_cases [where env = env and w = ?w1 and a = addr and hs = hs])
    case ok
    then show ?thesis by (simp add: network_def GETn_def)
  next
    case (failed e)
    then show ?thesis using okn by (simp add: GETn_def)
  qed
  have P_snd: "snd ?P = ?w3"
    using Promise_all_getData(1) [of env "member_detail_addr addr" hs ms ?w2]
    by (simp add: details_def)
  have run: "run = try_catch
               (await (lift (fst ?P)) (\<lambda>membersArr.
                  if nullish network then throw TypeError
                  else await (lift (flattenCentralMembers (JArr membersArr))) (\<lambda>flat.
                         ret (JObj [(''network'', central_network_record (cidrOptions env) network),
                                    (''members'', JArr (array_spread flat))]))))
               (\<lambda>error. throw (APIError (central_detail_message c) (Some error))) ?w3"
    unfolding run_def central_network_detail_unfold [OF opts]
    using m n P_snd
    by (cases ?P; cases "fst ?P")
       (simp_all add: try_catch_def await_def lift_def addr_def hs_def)
  show "trace (snd run) = trace w @ [GETm, GETn] @ details ms"
    unfolding run
    by (auto simp: try_catch_def await_def lift_def throw_def ret_def split: sum.splits)
  show "\<exists>cause. fst run = Inl (APIError (central_detail_message c) (Some cause))"
    if "\<not> replies_ok env (trace w @ [GETm, GETn]) (details ms)"
  proof -
    from Promise_all_getData(3) [of env ?w2 "member_detail_addr addr" hs ms] that
    obtain e where "fst ?P = Inl e"
      by (auto simp: details_def)
    then show ?thesis
      unfolding run by (simp add: try_catch_def await_def lift_def throw_def)
  qed
  show "replies_ok env (trace w @ [GETm, GETn]) (details ms)
           \<and> (\<exists>flat. v = JObj [(''network'', central_network_record (cidrOptions env) network),
                               (''members'', JArr flat)]
                     \<and> length flat = length ms)"
    if v: "fst run = Inr v"
  proof -
    have ok: "replies_ok env (trace w @ [GETm, GETn]) (details ms)"
    proof (rule ccontr)
      assume "\<not> ?thesis"
      from Promise_all_getData(3) [of env ?w2 "member_detail_addr addr" hs ms] this
      obtain e where "fst ?P = Inl e"
        by (auto simp: details_def)
      then have "isl (fst run)"
        unfolding run by (simp add: try_catch_def await_def lift_def throw_def)
      with v show False by simp
    qed
    with Promise_all_getData(2) [of env ?w2 "member_detail_addr addr" hs ms]
    have P: "fst ?P = Inr (reply_bodies env (trace w @ [GETm, GETn]) (details ms))"
      by (simp add: details_def)
    from v have "\<exists>flat. flattenCentralMembers (JArr (reply_bodies env (trace w @ [GETm, GETn]) (details ms)))
                     = Inr flat
                   \<and> v = JObj [(''network'', central_network_record (cidrOptions env) network),
                               (''members'', JArr (array_spread flat))]"
      unfolding run P
      by (auto simp: try_catch_def await_def lift_def throw_def ret_def split: sum.splits if_splits)
    then obtain flat where fl: "flattenCentralMembers (JArr (reply_bodies env (trace w @ [GETm, GETn]) (details ms)))
                     = Inr flat"
      and vv: "v = JObj [(''network'', central_network_record (cidrOptions env) network),
                               (''members'', JArr (array_spread flat))]"
      by blast
    from flattenCentralMembers_array [OF fl] obtain fs where "flat = JArr fs"
      and "length fs = length (details ms)"
      by auto
    with vv ok show ?thesis by (simp add: details_def)
  qed
  show "\<exists>cause. e = APIError (central_detail_message c) (Some cause)" if "fst run = Inl e"
    using that unfolding run
    by (auto simp: try_catch_def await_def lift_def throw_def ret_def split: sum.splits if_splits)
qed


section \<open>The network object of Central aggregation\<close>

lemma getOptions_cases:
  obtains (resolved) opts where "getOptions env c = Inr opts"
  | (failed) e where "getOptions env c = Inl e"
  by (cases "getOptions env c") auto

lemma central_network_detail_success:
  assumes "fst (central_network_detail env nwid c w) = Inr v"
  obtains opts ms where "getOptions env c = Inr opts"
    and "replied_ok (server env (trace w)
           (GET_request (network_addr env opts nwid c @ ''/member'') (headers opts)))"
    and "reply_body (server env (trace w)
           (GET_request (network_addr env opts nwid c @ ''/member'') (headers opts))) = JArr ms"
    and "replied_ok (server env
           (trace w @ [GET_request (network_addr env opts nwid c @ ''/member'') (headers opts)])
           (GET_request (network_addr env opts nwid c) (headers opts)))"
proof (cases rule: getOptions_cases [of env c])
  case (failed e)
  then have "fst (central_network_detail env nwid c w) = Inl e"
    by (simp add: central_network_detail_def await_def lift_def)
  with assms show ?thesis by simp
next
  case (resolved opts)
  let ?GETm = "GET_request (network_addr env opts nwid c @ ''/member'') (headers opts)"
  let ?GETn = "GET_request (network_addr env opts nwid c) (headers opts)"
  let ?w1 = "w\<lparr>trace := trace w @ [?GETm]\<rparr>"
  note unf = central_network_detail_unfold [OF resolved]
  from resolved show ?thesis
  proof (cases rule: network_members_cases [where w = w and nwid = nwid])
    case (failed e)
    then have "isl (fst (central_network_detail env nwid c w))"
      by (simp add: unf try_catch_Inl await_Inl throw_def)
    with assms show ?thesis by simp
  next
    case ok
    note m = ok [unfolded members_addr_network_addr]
    show ?thesis
    proof (cases rule: getData_cases [where env = env and w = ?w1
              and a = "network_addr env opts nwid c" and hs = "headers opts"])
      case (failed e)
      then have "isl (fst (central_network_detail env nwid c w))"
        using m(2) by (simp add: unf try_catch_Inl await_Inl await_Inr throw_def)
      with assms show ?thesis by simp
    next
      case ok
      have n: "replied_ok (server env (trace w @ [?GETm]) ?GETn)"
        using ok(1) by simp
      show ?thesis
      proof (cases "reply_body (server env (trace w) ?GETm)")
        case (JArr ms)
        with resolved m(1) n that show ?thesis by blast
      qed (use m(2) ok(2) assms in
            \<open>simp_all add: unf try_catch_Inl await_Inl await_Inr throw_def\<close>)
    qed
  qed
qed

lemma central_network_record_cidr:
  fixes network cidr
  defines "cfg \<equiv> own_props (get_prop network ''config'')"
  defines "rest \<equiv> rest_props network"
  defines "out \<equiv> get_prop (central_network_record cidr network) ''cidr''"
  shows "''cidr'' \<notin> fst ` set cfg \<union> fst ` set rest \<Longrightarrow> out = cidr"
    and "distinct (map fst cfg) \<Longrightarrow> map_of cfg ''cidr'' = Some c \<Longrightarrow> out = c"
    and "''cidr'' \<notin> fst ` set cfg \<Longrightarrow> distinct (map fst rest) \<Longrightarrow> map_of rest ''cidr'' = Some c
           \<Longrightarrow> out = c"
proof -
  let ?base = "[(''cidr'', cidr), (''nwid'', get_prop network ''id'')]"
  have out: "out = (case map_of (spread (spread ?base (JObj rest)) (get_prop network ''config'')) ''cidr'' of
                      Some v \<Rightarrow> v | None \<Rightarrow> JUndefined)"
    by (simp add: out_def central_network_record_def rest_def Let_def)
  show "out = cidr" if "''cidr'' \<notin> fst ` set cfg \<union> fst ` set rest"
    using that by (simp add: out map_of_spread_absent cfg_def)
  show "out = c" if "distinct (map fst cfg)" "map_of cfg ''cidr'' = Some c"
    using that by (simp add: out map_of_spread map_add_def cfg_def)
  show "out = c" if "''cidr'' \<notin> fst ` set cfg" "distinct (map fst rest)" "map_of rest ''cidr'' = Some c"
    using that by (simp add: out map_of_spread_absent map_of_spread map_add_def cfg_def)
qed

text \<open>
  C7 (as the code has it). The network object is \<open>{cidr: candidates, nwid: id, ...rest,
  ...config}\<close>: the candidates are written first. Whenever Central aggregation returns, the
  \<open>cidr\<close> of its network object is the candidate list if neither the fetched record's
  top-level fields nor its \<open>config\<close> have a \<open>cidr\<close> key; it is the \<open>cidr\<close> of \<open>config\<close> if
  \<open>config\<close> has one; and otherwise it is the top-level \<open>cidr\<close> of the record.
\<close>

theorem central_network_detail_cidr:
  assumes "central_network_detail env nwid isCentral w = (Inr v, w')"
  shows "\<exists>opts. getOptions env isCentral = Inr opts \<and>
     (let addr = (if isCentral then template_opt (ztCentralApiUrl opts) @ ''/network/'' @ nwid
                  else LOCAL_ZT_ADDR env @ ''/controller/network/'' @ nwid);
          GETm = GET_request (addr @ ''/member'') (headers opts);
          GETn = GET_request addr (headers opts);
          network = reply_body (server env (trace w @ [GETm]) GETn);
          cfg = own_props (get_prop network ''config'');
          rest = rest_props network;
          cidr = get_prop (get_prop v ''network'') ''cidr''
      in replied_ok (server env (trace w @ [GETm]) GETn)
         \<and> (''cidr'' \<notin> fst ` set cfg \<union> fst ` set rest \<longrightarrow> cidr = cidrOptions env)
         \<and> (\<forall>c. distinct (map fst cfg) \<and> map_of cfg ''cidr'' = Some c \<longrightarrow> cidr = c)
         \<and> (\<forall>c. ''cidr'' \<notin> fst ` set cfg \<and> distinct (map fst rest) \<and> map_of rest ''cidr'' = Some c
                \<longrightarrow> cidr = c))"
proof -
  from assms have v: "fst (central_network_detail env nwid isCentral w) = Inr v" by simp
  then obtain opts ms where opts: "getOptions env isCentral = Inr opts"
    and okm: "replied_ok (server env (trace w)
           (GET_request (network_addr env opts nwid isCentral @ ''/member'') (headers opts)))"
    and body: "reply_body (server env (trace w)
           (GET_request (network_addr env opts nwid isCentral @ ''/member'') (headers opts))) = JArr ms"
    and okn: "replied_ok (server env
           (trace w @ [GET_request (network_addr env opts nwid isCentral @ ''/member'') (headers opts)])
           (GET_request (network_addr env opts nwid isCentral) (headers opts)))"
    by (rule central_network_detail_success)
  let ?network = "reply_body (server env
           (trace w @ [GET_request (network_addr env opts nwid isCentral @ ''/member'') (headers opts)])
           (GET_request (network_addr env opts nwid isCentral) (headers opts)))"
  from central_network_detail_plan(3) [OF opts okm body okn v]
  have net: "get_prop v ''network'' = central_network_record (cidrOptions env) ?network"
    by auto
  have "replied_ok (server env
           (trace w @ [GET_request (network_addr env opts nwid isCentral @ ''/member'') (headers opts)])
           (GET_request (network_addr env opts nwid isCentral) (headers opts)))
         \<and> (''cidr'' \<notin> fst ` set (own_props (get_prop ?network ''config'')) \<union> fst ` set (rest_props ?network)
              \<longrightarrow> get_prop (get_prop v ''network'') ''cidr'' = cidrOptions env)
         \<and> (\<forall>c. distinct (map fst (own_props (get_prop ?network ''config'')))
                  \<and> map_of (own_props (get_prop ?network ''config'')) ''cidr'' = Some c
                \<longrightarrow> get_prop (get_prop v ''network'') ''cidr'' = c)
         \<and> (\<forall>c. ''cidr'' \<notin> fst ` set (own_props (get_prop ?network ''config''))
                  \<and> distinct (map fst (rest_props ?network)) \<and> map_of (rest_props ?network) ''cidr'' = Some c
                \<longrightarrow> get_prop (get_prop v ''network'') ''cidr'' = c)"
    unfolding net
    using okn central_network_record_cidr [where network = ?network and cidr = "cidrOptions env"]
    by blast
  then show ?thesis
    unfolding Let_def network_addr_def using opts by blast
qed

section \<open>The aggregators on the sample environments\<close>

lemmas run_defs = await_def try_catch_def ret_def throw_def lift_def axios_request_def
  getData_def postData_def GET_request_def POST_request_def DELETE_request_def axios_delete_def
  getOptions_def CENTRAL_prefix_def template_opt_def CENTRAL_ZT_ADDR_def nullish_def Let_def

lemma local_demo_run:
  "local_network_detail local_demo ''n1'' False start =
     (Inl (APIError ''An error occurred while getting data from network_details function''
             (Some (APIError
                ''An error occurred fetching data from http://127.0.0.1:9993/controller/network/n1/member/m3''
                (Some (AxiosError (Some 500)))))),
      \<lparr>trace = map (\<lambda>a. GET_request a [(''X-ZT1-Auth'', JStr ''s3cret''),
                                         (''Content-Type'', JStr ''application/json'')])
                 [''http://127.0.0.1:9993/controller/network/n1/member'',
                  ''http://127.0.0.1:9993/controller/network/n1'',
                  ''http://127.0.0.1:9993/controller/network/n1/member/m1'',
                  ''http://127.0.0.1:9993/controller/network/n1/member/m2'',
                  ''http://127.0.0.1:9993/controller/network/n1/member/m3''],
        console = []\<rparr>)"
  by (simp add: local_network_detail_def network_members_def run_defs local_demo_def start_def
                fetch_member_details_Cons detail_addr_def)

text \<open>
  C5 as stated fails on the order: with three members, the network record is the second
  request, issued before any member detail, not after them.
\<close>

theorem local_network_detail_network_before_details:
  "map req_addr (trace (snd (local_network_detail local_demo ''n1'' False start)))
     = [''http://127.0.0.1:9993/controller/network/n1/member'',
        ''http://127.0.0.1:9993/controller/network/n1'',
        ''http://127.0.0.1:9993/controller/network/n1/member/m1'',
        ''http://127.0.0.1:9993/controller/network/n1/member/m2'',
        ''http://127.0.0.1:9993/controller/network/n1/member/m3'']"
  by (simp add: local_demo_run GET_request_def)

text \<open>
  The hypothesis of C5 holds of the sample local controller: its third detail fetch fails,
  so the whole plan was not answered with success and the call throws the wrapped error.
\<close>

theorem local_network_detail_sequence_witness:
  "getOptions local_demo False
     = Inr \<lparr>ztCentralApiUrl = None,
            headers = [(''X-ZT1-Auth'', JStr ''s3cret''), (''Content-Type'', JStr ''application/json'')]\<rparr>
   \<and> (\<exists>cause. fst (local_network_detail local_demo ''n1'' False start)
         = Inl (APIError ''An error occurred while getting data from network_details function''
                  (Some cause)))"
proof -
  have h: "getOptions local_demo False
     = Inr \<lparr>ztCentralApiUrl = None,
            headers = [(''X-ZT1-Auth'', JStr ''s3cret''), (''Content-Type'', JStr ''application/json'')]\<rparr>"
    by (simp add: getOptions_def local_demo_def)
  note t = local_network_detail_sequence [OF h, where nwid = "''n1''" and w = start, unfolded Let_def]
  have "\<exists>cause. fst (local_network_detail local_demo ''n1'' False start)
         = Inl (APIError ''An error occurred while getting data from network_details function''
                  (Some cause))"
  proof (cases "fst (local_network_detail local_demo ''n1'' False start)")
    case (Inl e)
    with t show ?thesis by auto
  next
    case (Inr v)
    with t have False
      by (elim exE conjE) (simp add: local_demo_def start_def replied_ok_def)
    then show ?thesis ..
  qed
  with h show ?thesis by (rule conjI)
qed



lemma cidr_demo_run:
  "fst (central_network_detail cidr_demo ''n1'' True start)
     = Inr (JObj [(''network'', JObj [(''cidr'', JStr ''own''), (''nwid'', JStr ''n1''),
                                      (''name'', JStr ''lab'')]),
                  (''members'', JArr [JObj [(''nodeId'', JStr ''n1-m1''),
                                            (''authorized'', JBool True)]])])"
  by (simp add: central_network_detail_def network_members_def run_defs cidr_demo_def start_def
                Promise_all_def member_detail_addr_def central_network_record_def
                flattenCentralMembers_def flattenCentralMember_def spread_def rest_props_def)

text \<open>
  C7 as stated fails: a fetched record whose \<open>config\<close> has its own \<open>cidr\<close> keeps it, and the
  candidates are not in the result.
\<close>

theorem central_network_detail_cidr_not_overlaid:
  "get_prop (get_prop (projr (fst (central_network_detail cidr_demo ''n1'' True start))) ''network'')
            ''cidr'' = JStr ''own''
   \<and> cidrOptions cidr_demo = JArr [JStr ''10.121.15.0/24'']"
  by (simp add: cidr_demo_run) (simp add: cidr_demo_def)

text \<open>
  The hypothesis of C7 holds of the sample Central service: its aggregation returns, and
  the \<open>cidr\<close> of the result is the one of the record's \<open>config\<close>.
\<close>

theorem central_network_detail_cidr_witness:
  "fst (central_network_detail cidr_demo ''n1'' True start)
     = Inr (JObj [(''network'', JObj [(''cidr'', JStr ''own''), (''nwid'', JStr ''n1''),
                                      (''name'', JStr ''lab'')]),
                  (''members'', JArr [JObj [(''nodeId'', JStr ''n1-m1''),
                                            (''authorized'', JBool True)]])])
   \<and> get_prop (get_prop (JObj [(''network'', JObj [(''cidr'', JStr ''own''), (''nwid'', JStr ''n1''),
                                      (''name'', JStr ''lab'')]),
                  (''members'', JArr [JObj [(''nodeId'', JStr ''n1-m1''),
                                            (''authorized'', JBool True)]])]) ''network'') ''cidr''
     = JStr ''own''"
proof -
  define v where "v = JObj [(''network'', JObj [(''cidr'', JStr ''own''), (''nwid'', JStr ''n1''),
                                      (''name'', JStr ''lab'')]),
                  (''members'', JArr [JObj [(''nodeId'', JStr ''n1-m1''),
                                            (''authorized'', JBool True)]])]"
  have r: "fst (central_network_detail cidr_demo ''n1'' True start) = Inr v"
    by (simp add: cidr_demo_run v_def)
  then have h: "central_network_detail cidr_demo ''n1'' True start
                  = (Inr v, snd (central_network_detail cidr_demo ''n1'' True start))"
    by (simp add: prod_eq_iff)
  from central_network_detail_cidr [OF h, unfolded Let_def]
  have "get_prop (get_prop v ''network'') ''cidr'' = JStr ''own''"
    by (elim exE conjE) (simp add: cidr_demo_def start_def)
  with r show ?thesis unfolding v_def by (rule conjI)
qed

section \<open>Every operation but the peer lookup fails loudly\<close>



















section \<open>The peer lookup and the transport of POST and DELETE\<close>






text \<open>
  C4. Only \<open>getData\<close> looks at the status: on a 401 it throws "Invalid API Key". \<open>postData\<close>
  and the operations that call \<open>axios.delete\<close> throw their generic message on the same
  response, so a 401 answered to a POST or a DELETE does not surface as invalid credentials.
\<close>

theorem postData_401_is_generic:
  "fst (getData unauthorized_demo ''http://127.0.0.1:9993/status'' [] start)
     = Inl (APIError ''Invalid API Key'' (Some (AxiosError (Some 401))))
   \<and> fst (postData unauthorized_demo ''http://127.0.0.1:9993/controller/network/n1'' [] (JObj []) start)
     = Inl (APIError
              ''An error occurred while posting data to http://127.0.0.1:9993/controller/network/n1''
              (Some (AxiosError (Some 401))))
   \<and> fst (network_delete unauthorized_demo ''n1'' False start)
     = Inl (APIError ''An error occurred while getting network_delete'' (Some (AxiosError (Some 401))))"
  by (simp add: network_delete_def run_defs unauthorized_demo_def start_def)

section \<open>The payload of network creation\<close>

lemma create_payload_lookup:
  assumes "distinct (map fst (own_props ip))"
  shows "map_of (create_payload name ip) ''private''
     = Some (case map_of (own_props ip) ''private'' of None \<Rightarrow> JBool True | Some v \<Rightarrow> v)"
  "map_of (create_payload name ip) ''name''
     = Some (case map_of (own_props ip) ''name'' of None \<Rightarrow> JStr name | Some v \<Rightarrow> v)"
  using assms by (simp_all add: create_payload_def map_of_spread map_add_def split: option.splits)

lemma update_append_new: "k \<notin> fst ` set al \<Longrightarrow> AList.update k v al = al @ [(k, v)]"
  by (induction al) auto

lemma fold_update_distinct:
  "distinct (map fst (acc @ kvs)) \<Longrightarrow> fold (\<lambda>(k, v). AList.update k v) kvs acc = acc @ kvs"
proof (induction kvs arbitrary: acc)
  case Nil
  then show ?case by simp
next
  case (Cons kv kvs)
  obtain k v where kv: "kv = (k, v)" by (cases kv)
  from Cons.prems kv have new: "k \<notin> fst ` set acc" by auto
  from Cons.prems kv have "distinct (map fst ((acc @ [(k, v)]) @ kvs))" by simp
  from Cons.IH [OF this] show ?case
    using new kv by (simp add: update_append_new)
qed

lemma spread_copy: "distinct (map fst kvs) \<Longrightarrow> spread [] (JObj kvs) = kvs"
  using fold_update_distinct [of "[]" kvs] by (simp add: spread_def)

lemma distinct_create_payload: "distinct (map fst (create_payload name ip))"
  by (simp add: create_payload_def spread_merge distinct_merge)

lemma network_create_central:
  assumes "getOptions env True = Inr opts"
  shows "network_create env name ip True =
           try_catch
             (await (postData env (template_opt (ztCentralApiUrl opts) @ ''/network'') (headers opts)
                       (create_body name ip))
                (\<lambda>data. lift (flattenNetwork data)))
             (\<lambda>error. throw (APIError (create_message True) (Some error)))"
  unfolding network_create_def assms await_lift_Inr Let_def create_message_def create_body_def
    spread_copy [OF distinct_create_payload]
  by simp

lemma network_create_local:
  assumes "getOptions env False = Inr opts"
  shows "network_create env name ip False =
           try_catch
             (await (try_catch (getData env (status_addr env) (headers opts))
                       (\<lambda>error. throw (APIError
                            (CENTRAL_prefix False
                               @ ''An error occurred while getting get_controller_status'')
                            (Some error))))
                (\<lambda>controllerStatus.
                   if nullish controllerStatus then throw TypeError
                   else postData env (create_addr env controllerStatus) (headers opts)
                          (JObj (create_payload name ip))))
             (\<lambda>error. throw (APIError (create_message False) (Some error)))"
  unfolding network_create_def get_controller_status_def assms await_lift_Inr Let_def
    create_message_def status_addr_def create_addr_def
  by simp

lemma postData_cases:
  obtains (ok) "replied_ok (server env (trace w) (POST_request a hs p))"
      "postData env a hs p w = (Inr (reply_body (server env (trace w) (POST_request a hs p))),
                                w\<lparr>trace := trace w @ [POST_request a hs p]\<rparr>)"
  | (failed) e where "\<not> replied_ok (server env (trace w) (POST_request a hs p))"
      "postData env a hs p w = (Inl e, w\<lparr>trace := trace w @ [POST_request a hs p]\<rparr>)" "wrapped e"
proof (cases "replied_ok (server env (trace w) (POST_request a hs p))")
  case True
  with postData_ok [OF True] postData_world [of env a hs p w] ok show ?thesis
    by (metis prod.collapse)
next
  case False
  from postData_failed [OF False] obtain e where "fst (postData env a hs p w) = Inl e" "wrapped e"
    by auto
  with False postData_world [of env a hs p w] failed show ?thesis
    by (metis prod.collapse)
qed

lemma map_of_create_payload:
  assumes "distinct (map fst (own_props ip))"
  shows "map_of (create_payload name ip)
           = map_of [(''name'', JStr name), (''private'', JBool True)] ++ map_of (own_props ip)"
  using assms by (simp add: create_payload_def map_of_spread)

lemma network_create_trace_central:
  assumes "getOptions env True = Inr opts"
  shows "trace (snd (network_create env name ip True w))
           = trace w @ [POST_request (template_opt (ztCentralApiUrl opts) @ ''/network'') (headers opts)
                          (create_body name ip)]"
proof (cases rule: postData_cases [where env = env and w = w
          and a = "template_opt (ztCentralApiUrl opts) @ ''/network''" and hs = "headers opts"
          and p = "create_body name ip"])
  case ok
  then show ?thesis
    by (cases "flattenNetwork (reply_body (server env (trace w)
                 (POST_request (template_opt (ztCentralApiUrl opts) @ ''/network'') (headers opts)
                    (create_body name ip))))")
       (simp_all add: network_create_central [OF assms] try_catch_def await_def lift_def throw_def)
next
  case (failed e)
  then show ?thesis
    by (simp add: network_create_central [OF assms] try_catch_def await_def lift_def throw_def)
qed

lemma network_create_trace_local:
  fixes env name ip w
  assumes opts: "getOptions env False = Inr opts"
  defines "GETs \<equiv> GET_request (status_addr env) (headers opts)"
  defines "status \<equiv> reply_body (server env (trace w) GETs)"
  defines "posted \<equiv> POST_request (create_addr env status) (headers opts) (JObj (create_payload name ip))"
  shows "trace (snd (network_create env name ip False w))
           = trace w @ (if replied_ok (server env (trace w) GETs) \<and> \<not> nullish status
                        then [GETs, posted] else [GETs])"
proof -
  let ?w1 = "w\<lparr>trace := trace w @ [GETs]\<rparr>"
  note unf = network_create_local [OF opts, where name = name and ip = ip]
  show ?thesis
  proof (cases rule: getData_cases [where env = env and w = w and a = "status_addr env"
            and hs = "headers opts"])
    case (failed e)
    then have "snd (network_create env name ip False w) = ?w1"
      by (simp add: unf try_catch_def await_def throw_def GETs_def)
    then show ?thesis using failed(1) by (simp add: GETs_def)
  next
    case ok
    show ?thesis
    proof (cases "nullish status")
      case True
      with ok have "snd (network_create env name ip False w) = ?w1"
        by (simp add: unf try_catch_def await_def throw_def GETs_def status_def)
      then show ?thesis using True by simp
    next
      case nn: False
      have "snd (network_create env name ip False w) = w\<lparr>trace := trace w @ [GETs, posted]\<rparr>"
      proof (cases rule: postData_cases [where env = env and w = ?w1
                and a = "create_addr env status" and hs = "headers opts"
                and p = "JObj (create_payload name ip)"])
        case ok': ok
        then show ?thesis
          using ok nn
          by (simp add: unf try_catch_def await_def throw_def GETs_def status_def posted_def)
      next
        case (failed e)
        then show ?thesis
          using ok nn
          by (simp add: unf try_catch_def await_def throw_def GETs_def status_def posted_def)
      qed
      then show ?thesis using ok(1) nn by (simp add: GETs_def)
    qed
  qed
qed

text \<open>
  C10. The payload of \<open>network_create\<close> is \<open>{name, private: true, ...ipAssignment}\<close>: it
  has each key once, and it holds the caller's address configuration over the two forced
  fields, so its \<open>private\<close> is \<open>true\<close> and its \<open>name\<close> is the given name only where the
  address configuration has no such key, and is the caller's value where it has one. That
  payload is what is sent. To Central the operation issues exactly one request, the POST of
  \<open>{config: payload, description}\<close> to the networks endpoint. To the local controller it
  first asks the controller's status and, when that is answered with success and a body
  other than \<open>null\<close>, POSTs the payload as it is to the controller's address followed by
  the filler; when the status request fails (or answers \<open>null\<close>) nothing is posted.
\<close>

theorem network_create_payload_override:
  assumes "distinct (map fst (own_props ipAssignment))"
    and "getOptions env isCentral = Inr opts"
  shows
    "let payload = create_payload name ipAssignment;
         run = network_create env name ipAssignment isCentral w;
         central_post = POST_request (template_opt (ztCentralApiUrl opts) @ ''/network'') (headers opts)
                          (JObj [(''config'', JObj payload),
                                 (''description'', JStr ''created with ztnet'')]);
         GETs = GET_request (LOCAL_ZT_ADDR env @ ''/status'') (headers opts);
         status = reply_body (server env (trace w) GETs);
         local_post = POST_request
                        (LOCAL_ZT_ADDR env @ ''/controller/network/''
                           @ template (get_prop status ''address'') @ ''______'')
                        (headers opts) (JObj payload)
     in distinct (map fst payload)
        \<and> map_of payload
            = map_of [(''name'', JStr name), (''private'', JBool True)]
                ++ map_of (own_props ipAssignment)
        \<and> map_of payload ''private''
            = Some (case map_of (own_props ipAssignment) ''private'' of
                      None \<Rightarrow> JBool True | Some v \<Rightarrow> v)
        \<and> map_of payload ''name''
            = Some (case map_of (own_props ipAssignment) ''name'' of
                      None \<Rightarrow> JStr name | Some v \<Rightarrow> v)
        \<and> (isCentral \<longrightarrow> trace (snd run) = trace w @ [central_post])
        \<and> (\<not> isCentral \<longrightarrow>
              trace (snd run)
                = trace w @ (if replied_ok (server env (trace w) GETs) \<and> \<not> nullish status
                             then [GETs, local_post] else [GETs]))"
proof -
  have c: "trace (snd (network_create env name ipAssignment isCentral w))
             = trace w @ [POST_request (template_opt (ztCentralApiUrl opts) @ ''/network'') (headers opts)
                          (JObj [(''config'', JObj (create_payload name ipAssignment)),
                                 (''description'', JStr ''created with ztnet'')])]"
    if isCentral
    using network_create_trace_central [where env = env and opts = opts and name = name
             and ip = ipAssignment and w = w] assms(2) that
    by (simp add: create_body_def)
  have l: "trace (snd (network_create env name ipAssignment isCentral w))
             = trace w @
               (if replied_ok (server env (trace w) (GET_request (LOCAL_ZT_ADDR env @ ''/status'') (headers opts)))
                   \<and> \<not> nullish (reply_body (server env (trace w)
                                   (GET_request (LOCAL_ZT_ADDR env @ ''/status'') (headers opts))))
                then [GET_request (LOCAL_ZT_ADDR env @ ''/status'') (headers opts),
                      POST_request
                        (LOCAL_ZT_ADDR env @ ''/controller/network/''
                           @ template (get_prop (reply_body (server env (trace w)
                                   (GET_request (LOCAL_ZT_ADDR env @ ''/status'') (headers opts))))
                                 ''address'') @ ''______'')
                        (headers opts) (JObj (create_payload name ipAssignment))]
                else [GET_request (LOCAL_ZT_ADDR env @ ''/status'') (headers opts)])"
    if "\<not> isCentral"
  proof -
    from that assms(2) have o: "getOptions env False = Inr opts" by simp
    from that show ?thesis
      using network_create_trace_local [OF o, where name = name and ip = ipAssignment and w = w,
               unfolded status_addr_def create_addr_def]
      by simp
  qed
  show ?thesis
    unfolding Let_def
    using create_payload_lookup [OF assms(1), where name = name]
      map_of_create_payload [OF assms(1), where name = name]
      distinct_create_payload [where name = name and ip = ipAssignment] c l
    by (intro conjI impI) (assumption | blast)+
qed

section \<open>Creating a network on Central\<close>

lemma create_body_lab: "create_body ''lab'' lab_pool = lab_body"
  by (simp add: create_body_def create_payload_def spread_def lab_pool_def lab_body_def)

lemma flattenNetwork_object:
  "flattenNetwork (JObj kvs)
     = Inr (JObj (spread (spread [(''nwid'', get_prop (JObj kvs) ''id'')] (get_prop (JObj kvs) ''config''))
                         (JObj (rest_props (JObj kvs)))))"
  by (simp add: flattenNetwork_def nullish_def Let_def)

lemma flattenNetwork_fields:
  assumes "map_of kvs ''id'' = Some i" and "map_of kvs ''config'' = Some (JObj cfg)"
  shows "\<exists>v. flattenNetwork (JObj kvs) = Inr v
          \<and> (''nwid'' \<notin> fst ` set cfg \<union> fst ` set kvs \<longrightarrow> get_prop v ''nwid'' = i)
          \<and> (distinct (map fst cfg) \<and> map_of cfg k = Some x \<and> k \<notin> fst ` set kvs
               \<longrightarrow> get_prop v k = x)"
proof -
  let ?rest = "rest_props (JObj kvs)"
  let ?out = "spread (spread [(''nwid'', i)] (JObj cfg)) (JObj ?rest)"
  have rest: "fst ` set ?rest \<subseteq> fst ` set kvs"
    by (auto simp: keys_rest_props)
  have v: "flattenNetwork (JObj kvs) = Inr (JObj ?out)"
    using assms by (simp add: flattenNetwork_object)
  have "map_of ?out ''nwid'' = Some i" if "''nwid'' \<notin> fst ` set cfg \<union> fst ` set kvs"
  proof -
    from that rest have "''nwid'' \<notin> fst ` set (own_props (JObj cfg))"
      "''nwid'' \<notin> fst ` set (own_props (JObj ?rest))" by auto
    then show ?thesis by (simp add: map_of_spread_absent)
  qed
  moreover have "map_of ?out k = Some x"
    if "distinct (map fst cfg) \<and> map_of cfg k = Some x \<and> k \<notin> fst ` set kvs"
  proof -
    from that rest have "k \<notin> fst ` set (own_props (JObj ?rest))" by auto
    then have "map_of ?out k = map_of (spread [(''nwid'', i)] (JObj cfg)) k"
      by (simp add: map_of_spread_absent)
    also have "\<dots> = Some x"
      using that by (simp add: map_of_spread map_add_def)
    finally show ?thesis .
  qed
  ultimately show ?thesis unfolding v by simp
qed

text \<open>
  C8 (as the code has it). Creating the network "lab" on Central with the address
  configuration \<open>{ipPool: ["10.0.0.0/24"]}\<close> issues exactly one request, the POST of
  \<open>{config: {name: "lab", private: true, ipPool: ["10.0.0.0/24"]}, description: "created
  with ztnet"}\<close> to the networks endpoint. When the service answers with a record
  \<open>{id, config, ...}\<close>, the call returns that record flattened: its \<open>nwid\<close> is the response's
  \<open>id\<close> if the response has no \<open>nwid\<close> key of its own, and its \<open>name\<close> is "lab" if the
  response's \<open>config\<close> says so and the response has no top-level \<open>name\<close>.
\<close>

theorem network_create_lab_central:
  assumes "getOptions env True = Inr opts"
    and "posted = POST_request (template_opt (ztCentralApiUrl opts) @ ''/network'') (headers opts)
                  (JObj [(''config'', JObj [(''name'', JStr ''lab''), (''private'', JBool True),
                                            (''ipPool'', JArr [JStr ''10.0.0.0/24''])]),
                         (''description'', JStr ''created with ztnet'')])"
    and "run = network_create env ''lab'' (JObj [(''ipPool'', JArr [JStr ''10.0.0.0/24''])]) True w"
  shows "trace (snd run) = trace w @ [posted]
       \<and> (\<forall>s kvs i cfg.
             server env (trace w) posted = Status s (JObj kvs) \<and> 200 \<le> s \<and> s < 300
             \<and> map_of kvs ''id'' = Some i \<and> map_of kvs ''config'' = Some (JObj cfg) \<longrightarrow>
             (\<exists>v. fst run = Inr v \<and> flattenNetwork (JObj kvs) = Inr v
                 \<and> (''nwid'' \<notin> fst ` set cfg \<union> fst ` set kvs \<longrightarrow> get_prop v ''nwid'' = i)
                 \<and> (distinct (map fst cfg) \<and> map_of cfg ''name'' = Some (JStr ''lab'')
                      \<and> ''name'' \<notin> fst ` set kvs \<longrightarrow> get_prop v ''name'' = JStr ''lab'')))"
proof -
  let ?a = "template_opt (ztCentralApiUrl opts) @ ''/network''"
  have post: "posted = POST_request ?a (headers opts) lab_body"
    using assms(2) by (simp add: lab_body_def)
  have run: "run = try_catch
             (await (postData env ?a (headers opts) lab_body) (\<lambda>data. lift (flattenNetwork data)))
             (\<lambda>error. throw (APIError (create_message True) (Some error))) w"
    unfolding assms(3) network_create_central [OF assms(1)] create_body_lab [unfolded lab_pool_def]
    by (rule refl)
  show ?thesis
  proof (cases rule: postData_cases [where env = env and w = w and a = ?a and hs = "headers opts"
            and p = lab_body])
    case (failed e)
    then have "snd run = w\<lparr>trace := trace w @ [posted]\<rparr>"
      by (simp add: run post try_catch_def await_def throw_def)
    moreover have "\<not> (\<exists>s d. server env (trace w) posted = Status s d \<and> 200 \<le> s \<and> s < 300)"
      using failed(1) by (auto simp: post replied_ok_def)
    ultimately show ?thesis by auto
  next
    case ok
    have r: "run = (case flattenNetwork (reply_body (server env (trace w) posted)) of
                      Inl e \<Rightarrow> Inl (APIError (create_message True) (Some e))
                    | Inr v \<Rightarrow> Inr v,
                    w\<lparr>trace := trace w @ [posted]\<rparr>)"
      using ok(2)
      by (cases "flattenNetwork (reply_body (server env (trace w) posted))")
         (simp_all add: run post try_catch_def await_def throw_def lift_def)
    have "\<exists>v. fst run = Inr v \<and> flattenNetwork (JObj kvs) = Inr v
                 \<and> (''nwid'' \<notin> fst ` set cfg \<union> fst ` set kvs \<longrightarrow> get_prop v ''nwid'' = i)
                 \<and> (distinct (map fst cfg) \<and> map_of cfg ''name'' = Some (JStr ''lab'')
                      \<and> ''name'' \<notin> fst ` set kvs \<longrightarrow> get_prop v ''name'' = JStr ''lab'')"
      if "server env (trace w) posted = Status s (JObj kvs)"
        and "map_of kvs ''id'' = Some i" and "map_of kvs ''config'' = Some (JObj cfg)"
      for s kvs i cfg
    proof -
      from flattenNetwork_fields [OF that(2,3), of "''name''" "JStr ''lab''"]
      obtain v where v: "flattenNetwork (JObj kvs) = Inr v"
        and f: "''nwid'' \<notin> fst ` set cfg \<union> fst ` set kvs \<longrightarrow> get_prop v ''nwid'' = i"
          "distinct (map fst cfg) \<and> map_of cfg ''name'' = Some (JStr ''lab'')
             \<and> ''name'' \<notin> fst ` set kvs \<longrightarrow> get_prop v ''name'' = JStr ''lab''"
        by blast
      from v that(1) have "fst run = Inr v" by (simp add: r)
      with v f show ?thesis by blast
    qed
    moreover have "trace (snd run) = trace w @ [posted]" by (simp add: r)
    ultimately show ?thesis by blast
  qed
qed

text \<open>
  C8 as stated fails on the name: it is read from the response, so a service that answers
  with another name makes the call return that name.
\<close>

theorem network_create_lab_renamed:
  "fst (network_create rename_demo ''lab'' (JObj [(''ipPool'', JArr [JStr ''10.0.0.0/24''])]) True start)
     = Inr (JObj [(''nwid'', JStr ''8056c2e21c000001''), (''name'', JStr ''renamed'')])"
  by (simp add: network_create_def run_defs rename_demo_def start_def create_payload_def
                flattenNetwork_def spread_def rest_props_def)

lemma echo_demo_options:
  "getOptions echo_demo True
     = Inr \<lparr>ztCentralApiUrl = Some ''https://api.zerotier.com/api/v1'',
            headers = [(''Authorization'', JStr ''token k3y''),
                       (''Content-Type'', JStr ''application/json'')]\<rparr>"
  by (simp add: getOptions_def echo_demo_def CENTRAL_ZT_ADDR_def template_opt_def)

text \<open>
  The hypotheses of C8 hold of the service that echoes the \<open>config\<close> it was sent.
\<close>

theorem network_create_lab_central_witness:
  "getOptions echo_demo True
     = Inr \<lparr>ztCentralApiUrl = Some ''https://api.zerotier.com/api/v1'',
            headers = [(''Authorization'', JStr ''token k3y''),
                       (''Content-Type'', JStr ''application/json'')]\<rparr>
   \<and> (\<exists>v. fst (network_create echo_demo ''lab'' (JObj [(''ipPool'', JArr [JStr ''10.0.0.0/24''])])
                  True start) = Inr v
          \<and> get_prop v ''nwid'' = JStr ''8056c2e21c000001'' \<and> get_prop v ''name'' = JStr ''lab'')"
proof -
  define opts where "opts = \<lparr>ztCentralApiUrl = Some ''https://api.zerotier.com/api/v1'',
            headers = [(''Authorization'', JStr ''token k3y''),
                       (''Content-Type'', JStr ''application/json'')]\<rparr>"
  define posted where "posted = POST_request (template_opt (ztCentralApiUrl opts) @ ''/network'') (headers opts)
                  (JObj [(''config'', JObj [(''name'', JStr ''lab''), (''private'', JBool True),
                                            (''ipPool'', JArr [JStr ''10.0.0.0/24''])]),
                         (''description'', JStr ''created with ztnet'')])"
  define run where
    "run = network_create echo_demo ''lab'' (JObj [(''ipPool'', JArr [JStr ''10.0.0.0/24''])]) True start"
  define cfg where "cfg = [(''name'', JStr ''lab''), (''private'', JBool True),
                           (''ipPool'', JArr [JStr ''10.0.0.0/24''])]"
  define kvs where "kvs = [(''id'', JStr ''8056c2e21c000001''), (''config'', JObj cfg)]"
  have h1: "getOptions echo_demo True = Inr opts"
    by (simp add: echo_demo_options opts_def)
  note t = network_create_lab_central [OF h1 posted_def run_def]
  have reply: "server echo_demo (trace start) posted = Status 200 (JObj kvs)"
    by (simp add: echo_demo_def posted_def POST_request_def kvs_def cfg_def)
  have ids: "map_of kvs ''id'' = Some (JStr ''8056c2e21c000001'')"
    "map_of kvs ''config'' = Some (JObj cfg)"
    by (simp_all add: kvs_def)
  have side: "''nwid'' \<notin> fst ` set cfg \<union> fst ` set kvs"
    "distinct (map fst cfg) \<and> map_of cfg ''name'' = Some (JStr ''lab'') \<and> ''name'' \<notin> fst ` set kvs"
    by (simp_all add: kvs_def cfg_def)
  from t reply ids have "\<exists>v. fst run = Inr v \<and> flattenNetwork (JObj kvs) = Inr v
        \<and> (''nwid'' \<notin> fst ` set cfg \<union> fst ` set kvs \<longrightarrow> get_prop v ''nwid'' = JStr ''8056c2e21c000001'')
        \<and> (distinct (map fst cfg) \<and> map_of cfg ''name'' = Some (JStr ''lab'')
              \<and> ''name'' \<notin> fst ` set kvs \<longrightarrow> get_prop v ''name'' = JStr ''lab'')"
    by (elim conjE allE [where x = 200] allE [where x = kvs]
             allE [where x = "JStr ''8056c2e21c000001''"] allE [where x = cfg]) simp
  with side have "\<exists>v. fst run = Inr v \<and> get_prop v ''nwid'' = JStr ''8056c2e21c000001''
                     \<and> get_prop v ''name'' = JStr ''lab''"
    by blast
  then show ?thesis using h1 unfolding run_def opts_def by simp
qed

text \<open>
  The hypotheses of C10 hold of an address configuration with \<open>private: false\<close> sent to
  Central: the payload has \<open>private: false\<close>, and the one request issued is the POST that
  carries it.
\<close>

theorem network_create_payload_override_witness:
  "distinct (map fst (own_props (JObj [(''private'', JBool False),
                                       (''ipPool'', JArr [JStr ''10.0.0.0/24''])])))
   \<and> getOptions rename_demo True
       = Inr \<lparr>ztCentralApiUrl = Some ''https://api.zerotier.com/api/v1'',
              headers = [(''Authorization'', JStr ''token k3y''),
                         (''Content-Type'', JStr ''application/json'')]\<rparr>
   \<and> map_of (create_payload ''lab'' (JObj [(''private'', JBool False),
                                           (''ipPool'', JArr [JStr ''10.0.0.0/24''])])) ''private''
       = Some (JBool False)
   \<and> trace (snd (network_create rename_demo ''lab''
                   (JObj [(''private'', JBool False), (''ipPool'', JArr [JStr ''10.0.0.0/24''])])
                   True start))
       = [POST_request ''https://api.zerotier.com/api/v1/network''
            [(''Authorization'', JStr ''token k3y''), (''Content-Type'', JStr ''application/json'')]
            (JObj [(''config'', JObj [(''name'', JStr ''lab''), (''private'', JBool False),
                                      (''ipPool'', JArr [JStr ''10.0.0.0/24''])]),
                   (''description'', JStr ''created with ztnet'')])]"
proof -
  have h1: "distinct (map fst (own_props (JObj [(''private'', JBool False),
                                       (''ipPool'', JArr [JStr ''10.0.0.0/24''])])))"
    by simp
  have h2: "getOptions rename_demo True
       = Inr \<lparr>ztCentralApiUrl = Some ''https://api.zerotier.com/api/v1'',
              headers = [(''Authorization'', JStr ''token k3y''),
                         (''Content-Type'', JStr ''application/json'')]\<rparr>"
    by (simp add: getOptions_def rename_demo_def CENTRAL_ZT_ADDR_def template_opt_def)
  have p: "create_payload ''lab'' (JObj [(''private'', JBool False),
                                         (''ipPool'', JArr [JStr ''10.0.0.0/24''])])
             = [(''name'', JStr ''lab''), (''private'', JBool False),
                (''ipPool'', JArr [JStr ''10.0.0.0/24''])]"
    by (simp add: create_payload_def spread_def)
  note t = network_create_payload_override [OF h1 h2, where name = "''lab''" and w = start,
             unfolded Let_def]
  from t have "map_of (create_payload ''lab'' (JObj [(''private'', JBool False),
                                           (''ipPool'', JArr [JStr ''10.0.0.0/24''])])) ''private''
       = Some (JBool False)"
    by simp
  moreover from t have "trace (snd (network_create rename_demo ''lab''
                   (JObj [(''private'', JBool False), (''ipPool'', JArr [JStr ''10.0.0.0/24''])])
                   True start))
       = [POST_request ''https://api.zerotier.com/api/v1/network''
            [(''Authorization'', JStr ''token k3y''), (''Content-Type'', JStr ''application/json'')]
            (JObj [(''config'', JObj [(''name'', JStr ''lab''), (''private'', JBool False),
                                      (''ipPool'', JArr [JStr ''10.0.0.0/24''])]),
                   (''description'', JStr ''created with ztnet'')])]"
    by (simp add: p start_def template_opt_def)
  ultimately show ?thesis using h1 h2 by blast
qed

end
